theory Spec2Isabelle
  imports Main "HOL-Library.Sublist"
begin

section \<open>Python values and the operations the server uses on them\<close>

text \<open>
  The server works on the nested structure that \<^verbatim>\<open>xmltodict.parse\<close> returns: text,
  mappings from field names to values, sequences of values, and \<^verbatim>\<open>None\<close> for an empty
  element. A mapping is an association list in document order, read with \<open>map_of\<close>.

  A \<open>char\<close> stands for a code point below 256, so \<open>length\<close> counts what Python's
  \<^verbatim>\<open>len\<close> counts and \<^verbatim>\<open>str.lower\<close> and \<^verbatim>\<open>str.isdigit\<close> are the Unicode operations
  restricted to that range.

  Every exception of the source is a value: a computation that may raise has type
  \<open>py_error + 'a\<close>, with \<open>Inl\<close> for the exception.
\<close>

datatype py_error = AttributeError | TypeError | KeyError

datatype node = PyNone | Str string | Dict "(string \<times> node) list" | Seq "node list"

fun is_list :: "node \<Rightarrow> bool" where
  "is_list (Seq xs) = True"
| "is_list _ = False"

fun is_dict :: "node \<Rightarrow> bool" where
  "is_dict (Dict kvs) = True"
| "is_dict _ = False"

fun is_str :: "node \<Rightarrow> bool" where
  "is_str (Str s) = True"
| "is_str _ = False"

text \<open>Truth value of an object in a condition (\<^verbatim>\<open>if x:\<close>).\<close>

fun truthy :: "node \<Rightarrow> bool" where
  "truthy PyNone = False"
| "truthy (Str s) = (s \<noteq> [])"
| "truthy (Dict kvs) = (kvs \<noteq> [])"
| "truthy (Seq xs) = (xs \<noteq> [])"

text \<open>Sequencing of two computations, and \<^verbatim>\<open>try: m except Exception: h\<close>.\<close>

definition py_bind :: "py_error + 'a \<Rightarrow> ('a \<Rightarrow> py_error + 'b) \<Rightarrow> py_error + 'b" where
  "py_bind m f = (case m of Inl e \<Rightarrow> Inl e | Inr v \<Rightarrow> f v)"

definition py_except :: "py_error + 'a \<Rightarrow> py_error + 'a \<Rightarrow> py_error + 'a" where
  "py_except m h = (case m of Inl e \<Rightarrow> h | Inr v \<Rightarrow> Inr v)"

text \<open>\<^verbatim>\<open>for x in xs: body\<close>, the loop's variables threaded as a state.\<close>

fun for_each :: "('a \<Rightarrow> 's \<Rightarrow> py_error + 's) \<Rightarrow> 'a list \<Rightarrow> 's \<Rightarrow> py_error + 's" where
  "for_each body [] s = Inr s"
| "for_each body (x # xs) s =
     (case body x s of Inl e \<Rightarrow> Inl e | Inr s' \<Rightarrow> for_each body xs s')"

text \<open>A loop whose body may \<^verbatim>\<open>return\<close>: \<open>Some r\<close> leaves the loop with \<open>r\<close>.\<close>

fun for_return :: "('a \<Rightarrow> py_error + 'r option) \<Rightarrow> 'a list \<Rightarrow> py_error + 'r option" where
  "for_return body [] = Inr None"
| "for_return body (x # xs) =
     (case body x of Inl e \<Rightarrow> Inl e
      | Inr (Some r) \<Rightarrow> Inr (Some r)
      | Inr None \<Rightarrow> for_return body xs)"

text \<open>\<^verbatim>\<open>d.get(k, default)\<close>: only a mapping has the method.\<close>

fun py_get :: "node \<Rightarrow> string \<Rightarrow> node \<Rightarrow> py_error + node" where
  "py_get (Dict kvs) k d = Inr (case map_of kvs k of Some v \<Rightarrow> v | None \<Rightarrow> d)"
| "py_get _ k d = Inl AttributeError"

text \<open>\<^verbatim>\<open>x[k]\<close> with a string key.\<close>

fun py_item :: "node \<Rightarrow> string \<Rightarrow> py_error + node" where
  "py_item (Dict kvs) k = (case map_of kvs k of Some v \<Rightarrow> Inr v | None \<Rightarrow> Inl KeyError)"
| "py_item _ k = Inl TypeError"

text \<open>\<^verbatim>\<open>k in x\<close> with a string \<open>k\<close>: a key of a mapping, a substring of a text, an element
  of a sequence.\<close>

fun py_in :: "string \<Rightarrow> node \<Rightarrow> py_error + bool" where
  "py_in k (Dict kvs) = Inr (k \<in> set (map fst kvs))"
| "py_in k (Str s) = Inr (sublist k s)"
| "py_in k (Seq xs) = Inr (Str k \<in> set xs)"
| "py_in k PyNone = Inl TypeError"

text \<open>The elements of a value once it is known to be a sequence, and the source's
  \<^verbatim>\<open>if not isinstance(x, list): x = [x]\<close> and
  \<^verbatim>\<open>if not isinstance(x, list): x = [x] if x else []\<close>.\<close>

fun wrap_list :: "node \<Rightarrow> node list" where
  "wrap_list (Seq xs) = xs"
| "wrap_list v = [v]"

fun wrap_list_if :: "node \<Rightarrow> node list" where
  "wrap_list_if (Seq xs) = xs"
| "wrap_list_if v = (if truthy v then [v] else [])"

text \<open>\<^verbatim>\<open>str(x)\<close> and the formatting of \<open>x\<close> in an f-string. A text is itself and
  \<^verbatim>\<open>None\<close> prints as its name; what a mapping or a sequence prints as is decided by the
  class \<^verbatim>\<open>xmltodict\<close> builds, so it is the parameter \<open>rp\<close>.\<close>

fun py_str :: "(node \<Rightarrow> string) \<Rightarrow> node \<Rightarrow> string" where
  "py_str rp (Str s) = s"
| "py_str rp PyNone = ''None''"
| "py_str rp v = rp v"

text \<open>\<^verbatim>\<open>sep.join(parts)\<close> on a list: every part must be a text.\<close>

fun join_str :: "string \<Rightarrow> string list \<Rightarrow> string" where
  "join_str sep [] = []"
| "join_str sep [s] = s"
| "join_str sep (s # t # ss) = s @ sep @ join_str sep (t # ss)"

fun str_items :: "node list \<Rightarrow> py_error + string list" where
  "str_items [] = Inr []"
| "str_items (Str s # xs) =
     (case str_items xs of Inl e \<Rightarrow> Inl e | Inr ss \<Rightarrow> Inr (s # ss))"
| "str_items (v # xs) = Inl TypeError"

definition py_join :: "string \<Rightarrow> node list \<Rightarrow> py_error + string" where
  "py_join sep parts = (case str_items parts of Inl e \<Rightarrow> Inl e | Inr ss \<Rightarrow> Inr (join_str sep ss))"

text \<open>\<^verbatim>\<open>str.lower\<close>: the upper-case letters below 256 are A-Z and U+00C0-U+00DE without
  the multiplication sign U+00D7; each has its lower-case form 32 places on. Only a text
  has the method.\<close>

definition lower_char :: "char \<Rightarrow> char" where
  "lower_char c =
     (let n = (of_char c :: nat)
      in if (65 \<le> n \<and> n \<le> 90) \<or> (192 \<le> n \<and> n \<le> 222 \<and> n \<noteq> 215)
         then char_of (n + 32) else c)"

definition lower :: "string \<Rightarrow> string" where
  "lower s = map lower_char s"

fun py_lower :: "node \<Rightarrow> py_error + string" where
  "py_lower (Str s) = Inr (lower s)"
| "py_lower _ = Inl AttributeError"

text \<open>\<^verbatim>\<open>str.isdigit\<close>: a non-empty text of digit characters. Below 256 these are 0-9 and
  the superscript digits U+00B2, U+00B3 and U+00B9.\<close>

definition digit_char :: "char \<Rightarrow> bool" where
  "digit_char c =
     (let n = (of_char c :: nat)
      in (48 \<le> n \<and> n \<le> 57) \<or> n = 178 \<or> n = 179 \<or> n = 185)"

definition isdigit :: "string \<Rightarrow> bool" where
  "isdigit s = (s \<noteq> [] \<and> list_all digit_char s)"

text \<open>The decimal numeral of an integer, as an f-string prints it.\<close>

fun digits :: "nat \<Rightarrow> string" where
  "digits n = (if n < 10 then [char_of (48 + n)] else digits (n div 10) @ [char_of (48 + n mod 10)])"

definition str_int :: "int \<Rightarrow> string" where
  "str_int i = (if i < 0 then CHR ''-'' # digits (nat (- i)) else digits (nat i))"

section \<open>Field extractors (\<^verbatim>\<open>server.py\<close>)\<close>

subsection \<open>\<^verbatim>\<open>_extract_authors\<close>\<close>

text \<open>The body of the loop over \<^verbatim>\<open>authors[:15]\<close>; the state is \<^verbatim>\<open>author_names\<close>.\<close>

definition author_step :: "(node \<Rightarrow> string) \<Rightarrow> node \<Rightarrow> node list \<Rightarrow> py_error + node list" where
  "author_step rp author author_names =
     (if is_dict author then
        py_bind (py_get author ''LastName'' (Str [])) (\<lambda>last_name.
        py_bind (py_get author ''ForeName'' (Str [])) (\<lambda>fore_name.
        py_bind (py_get author ''Initials'' (Str [])) (\<lambda>initials.
          if truthy last_name then
            if truthy fore_name then
              Inr (author_names @ [Str (py_str rp last_name @ '' '' @ py_str rp fore_name)])
            else if truthy initials then
              Inr (author_names @ [Str (py_str rp last_name @ '' '' @ py_str rp initials)])
            else Inr (author_names @ [last_name])
          else Inr author_names)))
      else Inr author_names)"

definition authors_body :: "(node \<Rightarrow> string) \<Rightarrow> node \<Rightarrow> py_error + string" where
  "authors_body rp author_list =
     py_bind (py_get author_list ''Author'' (Seq [])) (\<lambda>a.
       let authors = wrap_list a in
       py_bind (for_each (author_step rp) (take 15 authors) []) (\<lambda>author_names.
         if length authors > 15 then
           py_bind (py_join '', '' author_names) (\<lambda>j. Inr (j @ '', et al.''))
         else if author_names \<noteq> [] then py_join '', '' author_names
         else Inr ''Authors not available''))"

definition extract_authors :: "(node \<Rightarrow> string) \<Rightarrow> node \<Rightarrow> py_error + string" where
  "extract_authors rp author_list =
     py_except (authors_body rp author_list) (Inr ''Authors not available'')"

subsection \<open>\<^verbatim>\<open>_extract_pub_date\<close>\<close>

definition pub_date_body :: "node \<Rightarrow> py_error + node" where
  "pub_date_body journal_issue =
     py_bind (py_get journal_issue ''PubDate'' (Dict [])) (\<lambda>pub_date.
       if is_dict pub_date then
         py_bind (py_get pub_date ''Year'' (Str [])) (\<lambda>year.
         py_bind (py_get pub_date ''Month'' (Str [])) (\<lambda>month.
         py_bind (py_get pub_date ''Day'' (Str [])) (\<lambda>day.
         py_bind (py_get pub_date ''MedlineDate'' (Str [])) (\<lambda>date_string.
           if truthy date_string then Inr date_string
           else if truthy year then
             py_bind
               (py_join '' ''
                  ([year] @ (if truthy month then [month] @ (if truthy day then [day] else [])
                             else [])))
               (\<lambda>j. Inr (Str j))
           else Inr (Str ''Date not available'')))))
       else Inr (Str ''Date not available''))"

definition extract_pub_date :: "node \<Rightarrow> py_error + node" where
  "extract_pub_date journal_issue =
     py_except (pub_date_body journal_issue) (Inr (Str ''Date not available''))"

subsection \<open>\<^verbatim>\<open>_extract_abstract\<close>\<close>

text \<open>The body of the loop over a structured abstract; the state is \<^verbatim>\<open>text_parts\<close>.\<close>

definition abstract_step :: "(node \<Rightarrow> string) \<Rightarrow> node \<Rightarrow> node list \<Rightarrow> py_error + node list" where
  "abstract_step rp part text_parts =
     (if is_dict part then
        py_bind (py_get part ''@Label'' (Str [])) (\<lambda>label.
        py_bind (py_get part ''#text'' (Str [])) (\<lambda>text.
          if truthy label \<and> truthy text then
            Inr (text_parts @ [Str (''**'' @ py_str rp label @ '':** '' @ py_str rp text)])
          else if truthy text then Inr (text_parts @ [text])
          else Inr text_parts))
      else Inr (text_parts @ [Str (py_str rp part)]))"

definition abstract_body :: "(node \<Rightarrow> string) \<Rightarrow> node \<Rightarrow> py_error + node" where
  "abstract_body rp abstract_data =
     py_bind (py_get abstract_data ''AbstractText'' (Str [])) (\<lambda>abstract_text.
       if is_list abstract_text then
         py_bind (for_each (abstract_step rp) (wrap_list abstract_text) []) (\<lambda>text_parts.
         py_bind (py_join [CHR 0x0A, CHR 0x0A] text_parts) (\<lambda>j. Inr (Str j)))
       else if is_dict abstract_text then py_get abstract_text ''#text'' (Str [])
       else Inr (Str (if truthy abstract_text then py_str rp abstract_text else [])))"

definition extract_abstract :: "(node \<Rightarrow> string) \<Rightarrow> node \<Rightarrow> py_error + node" where
  "extract_abstract rp abstract_data =
     py_except (abstract_body rp abstract_data) (Inr (Str []))"

subsection \<open>\<^verbatim>\<open>_extract_doi\<close>\<close>

definition doi_step :: "node \<Rightarrow> py_error + node option" where
  "doi_step elocation =
     (if is_dict elocation then
        py_bind (py_get elocation ''@EIdType'' (Str [])) (\<lambda>id_type.
        py_bind (py_lower id_type) (\<lambda>l.
          if l = ''doi'' then
            py_bind (py_get elocation ''#text'' (Str [])) (\<lambda>doi.
              if truthy doi then Inr (Some doi) else Inr None)
          else Inr None))
      else Inr None)"

definition doi_body :: "node \<Rightarrow> py_error + node" where
  "doi_body elocation_ids =
     py_bind (for_return doi_step (wrap_list_if elocation_ids)) (\<lambda>r.
       case r of Some doi \<Rightarrow> Inr doi | None \<Rightarrow> Inr (Str []))"

definition extract_doi :: "node \<Rightarrow> py_error + node" where
  "extract_doi elocation_ids = py_except (doi_body elocation_ids) (Inr (Str []))"

subsection \<open>\<^verbatim>\<open>_extract_keywords\<close>\<close>

text \<open>The state of the loop is \<^verbatim>\<open>keyword_texts\<close> with \<^verbatim>\<open>seen_keywords\<close>.\<close>

definition keyword_step ::
  "(node \<Rightarrow> string) \<Rightarrow> node \<Rightarrow> node list \<times> string set \<Rightarrow> py_error + node list \<times> string set" where
  "keyword_step rp keyword st =
     (case st of (keyword_texts, seen_keywords) \<Rightarrow>
        if is_dict keyword then
          py_bind (py_get keyword ''#text'' (Str [])) (\<lambda>text.
            if truthy text then
              py_bind (py_lower text) (\<lambda>l.
                if l \<notin> seen_keywords
                then Inr (keyword_texts @ [text], insert l seen_keywords)
                else Inr (keyword_texts, seen_keywords))
            else Inr (keyword_texts, seen_keywords))
        else if truthy keyword \<and> lower (py_str rp keyword) \<notin> seen_keywords then
          Inr (keyword_texts @ [Str (py_str rp keyword)],
               insert (lower (py_str rp keyword)) seen_keywords)
        else Inr (keyword_texts, seen_keywords))"

definition keywords_body :: "(node \<Rightarrow> string) \<Rightarrow> node \<Rightarrow> py_error + node list" where
  "keywords_body rp keyword_list =
     py_bind (py_get keyword_list ''Keyword'' (Seq [])) (\<lambda>keywords.
     py_bind (for_each (keyword_step rp) (wrap_list_if keywords) ([], {})) (\<lambda>st.
       Inr (fst st)))"

definition extract_keywords :: "(node \<Rightarrow> string) \<Rightarrow> node \<Rightarrow> py_error + node list" where
  "extract_keywords rp keyword_list = py_except (keywords_body rp keyword_list) (Inr [])"

subsection \<open>\<^verbatim>\<open>_extract_publication_types\<close>\<close>

definition pub_type_step :: "(node \<Rightarrow> string) \<Rightarrow> node \<Rightarrow> node list \<Rightarrow> py_error + node list" where
  "pub_type_step rp pub_type type_texts =
     (if is_dict pub_type then
        py_bind (py_get pub_type ''#text'' (Str [])) (\<lambda>text.
          if truthy text then Inr (type_texts @ [text]) else Inr type_texts)
      else Inr (type_texts @ [Str (py_str rp pub_type)]))"

definition publication_types_body :: "(node \<Rightarrow> string) \<Rightarrow> node \<Rightarrow> py_error + node list" where
  "publication_types_body rp pub_type_list =
     py_bind (py_get pub_type_list ''PublicationType'' (Seq [])) (\<lambda>pub_types.
       for_each (pub_type_step rp) (wrap_list_if pub_types) [])"

definition extract_publication_types :: "(node \<Rightarrow> string) \<Rightarrow> node \<Rightarrow> py_error + node list" where
  "extract_publication_types rp pub_type_list =
     py_except (publication_types_body rp pub_type_list) (Inr [])"

subsection \<open>\<^verbatim>\<open>_extract_mesh_terms\<close>\<close>

definition mesh_step :: "node \<Rightarrow> node list \<Rightarrow> py_error + node list" where
  "mesh_step heading mesh_terms =
     (if is_dict heading then
        py_bind (py_get heading ''DescriptorName'' (Dict [])) (\<lambda>descriptor.
          if is_dict descriptor then
            py_bind (py_get descriptor ''#text'' (Str [])) (\<lambda>term.
              if truthy term then Inr (mesh_terms @ [term]) else Inr mesh_terms)
          else Inr mesh_terms)
      else Inr mesh_terms)"

definition mesh_terms_body :: "node \<Rightarrow> py_error + node list" where
  "mesh_terms_body mesh_list =
     py_bind (py_get mesh_list ''MeshHeading'' (Seq [])) (\<lambda>mesh_headings.
       for_each mesh_step (take 10 (wrap_list_if mesh_headings)) [])"

definition extract_mesh_terms :: "node \<Rightarrow> py_error + node list" where
  "extract_mesh_terms mesh_list = py_except (mesh_terms_body mesh_list) (Inr [])"

section \<open>Building publications (\<^verbatim>\<open>server.py\<close>)\<close>

subsection \<open>\<^verbatim>\<open>_parse_single_article\<close>\<close>

text \<open>The publication is the dictionary the source returns, a \<open>Dict\<close> of eleven keys.\<close>

definition text_of :: "node \<Rightarrow> py_error + node" where
  "text_of v = (if is_dict v then py_get v ''#text'' (Str []) else Inr v)"

definition str_or :: "(node \<Rightarrow> string) \<Rightarrow> node \<Rightarrow> string \<Rightarrow> string" where
  "str_or rp v d = (if truthy v then py_str rp v else d)"

definition single_article_body :: "(node \<Rightarrow> string) \<Rightarrow> node \<Rightarrow> py_error + node" where
  "single_article_body rp article_data =
     py_bind (py_get article_data ''MedlineCitation'' (Dict [])) (\<lambda>medline_citation.
     py_bind (py_get article_data ''PubmedData'' (Dict [])) (\<lambda>pubmed_data.
     py_bind (py_get medline_citation ''Article'' (Dict [])) (\<lambda>article_info.
     py_bind (py_get medline_citation ''PMID'' (Dict [])) (\<lambda>pmid0.
     py_bind (text_of pmid0) (\<lambda>pmid.
     py_bind (py_get article_info ''ArticleTitle'' (Str [])) (\<lambda>title0.
     py_bind (text_of title0) (\<lambda>title.
     py_bind (py_get article_info ''AuthorList'' (Dict [])) (\<lambda>author_list.
     py_bind (extract_authors rp author_list) (\<lambda>authors.
     py_bind (py_get article_info ''Journal'' (Dict [])) (\<lambda>journal_info.
     py_bind (py_get journal_info ''Title'' (Str ''Unknown journal'')) (\<lambda>journal_title.
     py_bind (py_get journal_info ''ISOAbbreviation'' (Str [])) (\<lambda>journal_iso.
     py_bind (py_get journal_info ''JournalIssue'' (Dict [])) (\<lambda>journal_issue.
     py_bind (extract_pub_date journal_issue) (\<lambda>pub_date.
     py_bind (py_get article_info ''Abstract'' (Dict [])) (\<lambda>abstract_data.
     py_bind (extract_abstract rp abstract_data) (\<lambda>abstract.
     py_bind (py_get article_info ''ELocationID'' (Seq [])) (\<lambda>elocation_ids.
     py_bind (extract_doi elocation_ids) (\<lambda>doi.
     py_bind (py_get medline_citation ''KeywordList'' (Dict [])) (\<lambda>keyword_list.
     py_bind (extract_keywords rp keyword_list) (\<lambda>keywords.
     py_bind (py_get article_info ''PublicationTypeList'' (Dict [])) (\<lambda>pub_type_list.
     py_bind (extract_publication_types rp pub_type_list) (\<lambda>pub_types.
     py_bind (py_get medline_citation ''MeshHeadingList'' (Dict [])) (\<lambda>mesh_list.
     py_bind (extract_mesh_terms mesh_list) (\<lambda>mesh_terms.
       Inr (Dict
         [(''pmid'', Str (str_or rp pmid ''Unknown'')),
          (''title'', Str (str_or rp title ''No title available'')),
          (''authors'', Str authors),
          (''journal'', journal_title),
          (''journal_iso'', journal_iso),
          (''pub_date'', pub_date),
          (''abstract'', abstract),
          (''doi'', doi),
          (''keywords'', Seq keywords),
          (''publication_types'', Seq pub_types),
          (''mesh_terms'', Seq mesh_terms)])))))))))))))))))))))))))"

text \<open>The source returns \<^verbatim>\<open>None\<close> from its handler.\<close>

definition parse_single_article :: "(node \<Rightarrow> string) \<Rightarrow> node \<Rightarrow> py_error + node" where
  "parse_single_article rp article_data =
     py_except (single_article_body rp article_data) (Inr PyNone)"

subsection \<open>\<^verbatim>\<open>_parse_articles\<close>\<close>

text \<open>
  The list \<^verbatim>\<open>articles\<close> is created before the \<^verbatim>\<open>try\<close> and returned after it, so what
  the loop appended before an exception is kept: the loop returns the list together
  with the exception that ended it, if any.
\<close>

fun articles_loop ::
  "(node \<Rightarrow> string) \<Rightarrow> node list \<Rightarrow> node list \<Rightarrow> node list \<times> py_error option" where
  "articles_loop rp [] articles = (articles, None)"
| "articles_loop rp (article_data # rest) articles =
     (case parse_single_article rp article_data of
        Inl e \<Rightarrow> (articles, Some e)
      | Inr article \<Rightarrow>
          articles_loop rp rest (if truthy article then articles @ [article] else articles))"

definition parse_articles :: "(node \<Rightarrow> string) \<Rightarrow> node \<Rightarrow> py_error + node list" where
  "parse_articles rp xml_data =
     (case py_get xml_data ''PubmedArticleSet'' (Dict []) of
        Inl e \<Rightarrow> Inr []
      | Inr pubmed_data \<Rightarrow>
          if \<not> truthy pubmed_data then Inr []
          else (case py_get pubmed_data ''PubmedArticle'' (Seq []) of
                  Inl e \<Rightarrow> Inr []
                | Inr pubmed_articles \<Rightarrow>
                    Inr (fst (articles_loop rp (wrap_list pubmed_articles) []))))"

section \<open>Query augmentation (\<^verbatim>\<open>_search_pubmed\<close>, the date range filter)\<close>

text \<open>The value of \<^verbatim>\<open>search_query\<close> after the date range handling; \<open>current_year\<close> is
  \<^verbatim>\<open>datetime.now().year\<close>.\<close>

definition search_query :: "int \<Rightarrow> string \<Rightarrow> string \<Rightarrow> string" where
  "search_query current_year query date_range =
     (if date_range \<noteq> [] then
        if date_range = ''last_5_years'' then
          query @ '' AND '' @ str_int (current_year - 5) @ '':'' @ str_int current_year @ ''[pdat]''
        else if date_range = ''last_year'' then
          query @ '' AND '' @ str_int (current_year - 1) @ '':'' @ str_int current_year @ ''[pdat]''
        else if CHR '':'' \<in> set date_range then
          query @ '' AND '' @ date_range @ ''[pdat]''
        else if isdigit date_range \<and> length date_range = 4 then
          query @ '' AND '' @ date_range @ ''[pdat]''
        else query
      else query)"

text \<open>The spec's words for rule 4: a token of exactly four decimal digits.\<close>

definition four_decimal_digits :: "string \<Rightarrow> bool" where
  "four_decimal_digits t = (length t = 4 \<and> list_all (\<lambda>c. c \<in> set ''0123456789'') t)"

section \<open>Related identifiers\<close>

subsection \<open>\<^verbatim>\<open>_get_similar_articles\<close> of \<^verbatim>\<open>server.py\<close>: the linked PMIDs\<close>

text \<open>\<^verbatim>\<open>x = x[0] if x else {}\<close> for a list \<open>x\<close>; any other value is left as it is.\<close>

fun first_or_empty :: "node \<Rightarrow> node" where
  "first_or_empty (Seq []) = Dict []"
| "first_or_empty (Seq (x # xs)) = x"
| "first_or_empty v = v"

text \<open>One element of the comprehension
  \<^verbatim>\<open>[link["Id"] for link in links if link["Id"] != pmid]\<close>.\<close>

definition link_step :: "string \<Rightarrow> node \<Rightarrow> node list \<Rightarrow> py_error + node list" where
  "link_step pmid link ids =
     py_bind (py_item link ''Id'') (\<lambda>i.
       if i \<noteq> Str pmid then py_bind (py_item link ''Id'') (\<lambda>j. Inr (ids @ [j]))
       else Inr ids)"

text \<open>The value of \<^verbatim>\<open>similar_pmids\<close> before the test for emptiness.\<close>

definition similar_pmids :: "node \<Rightarrow> string \<Rightarrow> py_error + node list" where
  "similar_pmids link_result pmid =
     py_bind (py_in ''eLinkResult'' link_result) (\<lambda>has_result.
     py_bind (if has_result
              then py_bind (py_item link_result ''eLinkResult'') (py_in ''LinkSet'')
              else Inr False) (\<lambda>has_linkset.
       if has_linkset then
         py_bind (py_item link_result ''eLinkResult'') (\<lambda>result.
         py_bind (py_item result ''LinkSet'') (\<lambda>linkset0.
           let linkset = first_or_empty linkset0 in
           py_bind (py_in ''LinkSetDb'' linkset) (\<lambda>has_db.
             if has_db then
               py_bind (py_item linkset ''LinkSetDb'') (\<lambda>linksetdb0.
                 let linksetdb = first_or_empty linksetdb0 in
                 py_bind (py_in ''Link'' linksetdb) (\<lambda>has_link.
                   if has_link then
                     py_bind (py_item linksetdb ''Link'') (\<lambda>links.
                       if is_list links then for_each (link_step pmid) (wrap_list links) []
                       else link_step pmid links [])
                   else Inr []))
             else Inr [])))
       else Inr []))"

section \<open>Rendering (\<^verbatim>\<open>_format_article_details\<close>)\<close>

text \<open>
  The literals of the renderer hold a bullet and seven pictographs, code points above
  255. Nothing in the program inspects them; each is written here as the bytes of
  its UTF-8 form.
\<close>

definition bullet :: string where
  "bullet = [CHR 0xE2, CHR 0x80, CHR 0xA2]"

definition page_sign :: string where
  "page_sign = [CHR 0xF0, CHR 0x9F, CHR 0x93, CHR 0x84]"

definition link_sign :: string where
  "link_sign = [CHR 0xF0, CHR 0x9F, CHR 0x94, CHR 0x97]"

definition clipboard_sign :: string where
  "clipboard_sign = [CHR 0xF0, CHR 0x9F, CHR 0x93, CHR 0x8B]"

definition magnifier_sign :: string where
  "magnifier_sign = [CHR 0xF0, CHR 0x9F, CHR 0x94, CHR 0x8D]"

definition chart_sign :: string where
  "chart_sign = [CHR 0xF0, CHR 0x9F, CHR 0x93, CHR 0x8A]"

definition label_sign :: string where
  "label_sign = [CHR 0xF0, CHR 0x9F, CHR 0x8F, CHR 0xB7, CHR 0xEF, CHR 0xB8, CHR 0x8F]"

definition microscope_sign :: string where
  "microscope_sign = [CHR 0xF0, CHR 0x9F, CHR 0x94, CHR 0xAC]"

definition nl :: string where
  "nl = [CHR 0x0A]"

text \<open>\<^verbatim>\<open>for x in v\<close> over any value: the elements of a sequence, the keys of a mapping,
  the characters of a text.\<close>

fun py_iter :: "node \<Rightarrow> py_error + node list" where
  "py_iter (Seq xs) = Inr xs"
| "py_iter (Dict kvs) = Inr (map (\<lambda>kv. Str (fst kv)) kvs)"
| "py_iter (Str s) = Inr (map (\<lambda>c. Str [c]) s)"
| "py_iter PyNone = Inl TypeError"

text \<open>\<^verbatim>\<open>sep.join(v)\<close> on any value: \<open>v\<close> is iterated first.\<close>

definition py_join_any :: "string \<Rightarrow> node \<Rightarrow> py_error + string" where
  "py_join_any sep v = py_bind (py_iter v) (py_join sep)"

text \<open>The head of \<^verbatim>\<open>details\<close>, up to the PMID line and the DOI line.\<close>

definition details_head ::
  "(node \<Rightarrow> string) \<Rightarrow> node \<Rightarrow> node \<Rightarrow> node \<Rightarrow> node \<Rightarrow> node \<Rightarrow> node \<Rightarrow> node \<Rightarrow> string list" where
  "details_head rp pmid title authors journal journal_iso pub_date doi =
     [''# '' @ page_sign @ '' Publication Details - PMID '' @ py_str rp pmid @ nl,
      ''## '' @ py_str rp title @ nl,
      ''**Authors:** '' @ py_str rp authors @ nl,
      ''**Journal:** '' @ py_str rp journal]
     @ (if truthy journal_iso then [''**Journal (ISO):** '' @ py_str rp journal_iso] else [])
     @ [''**Published:** '' @ py_str rp pub_date,
        ''**PMID:** '' @ py_str rp pmid]
     @ (if truthy doi then [''**DOI:** '' @ py_str rp doi] else [])"

text \<open>\<^verbatim>\<open>links_section\<close>.\<close>

definition links_section :: "(node \<Rightarrow> string) \<Rightarrow> node \<Rightarrow> node \<Rightarrow> string list" where
  "links_section rp pmid doi =
     [nl @ ''## '' @ link_sign @ '' Quick Access Links'',
      bullet @ '' ['' @ page_sign @ '' **View on PubMed**](https://pubmed.ncbi.nlm.nih.gov/''
        @ py_str rp pmid @ ''/) - Official PubMed page'']
     @ (if truthy doi then
          [bullet @ '' ['' @ clipboard_sign @ '' **DOI Link**](https://doi.org/''
             @ py_str rp doi @ '') - Publisher's page'',
           bullet @ '' ['' @ magnifier_sign @ '' **Full Text Access**](https://doi.org/''
             @ py_str rp doi @ '') - Try to access full paper'']
        else
          [bullet @ '' ['' @ magnifier_sign
             @ '' **Search Full Text**](https://pubmed.ncbi.nlm.nih.gov/''
             @ py_str rp pmid @ ''/) - Look for free full text''])
     @ [bullet @ '' ['' @ chart_sign @ '' **Citation Analysis**](https://scholar.google.com/scholar?q=''
          @ py_str rp pmid @ '') - Google Scholar citations'',
        bullet @ '' ['' @ link_sign
          @ '' **Find Similar**](https://pubmed.ncbi.nlm.nih.gov/sites/pubmed/?linkname=pubmed_pubmed&from_uid=''
          @ py_str rp pmid @ '') - Related articles'']"

text \<open>The list \<^verbatim>\<open>details\<close> when the function returns.\<close>

definition details :: "(node \<Rightarrow> string) \<Rightarrow> node \<Rightarrow> py_error + string list" where
  "details rp article =
     py_bind (py_get article ''pmid'' (Str ''Unknown'')) (\<lambda>pmid.
     py_bind (py_get article ''title'' (Str ''No title'')) (\<lambda>title.
     py_bind (py_get article ''authors'' (Str ''No authors'')) (\<lambda>authors.
     py_bind (py_get article ''journal'' (Str ''Unknown journal'')) (\<lambda>journal.
     py_bind (py_get article ''journal_iso'' (Str [])) (\<lambda>journal_iso.
     py_bind (py_get article ''pub_date'' (Str ''Unknown date'')) (\<lambda>pub_date.
     py_bind (py_get article ''doi'' (Str [])) (\<lambda>doi.
     py_bind (py_get article ''abstract'' (Str [])) (\<lambda>abstract.
     py_bind (py_get article ''keywords'' (Seq [])) (\<lambda>keywords.
     py_bind (py_get article ''publication_types'' (Seq [])) (\<lambda>pub_types.
     py_bind (py_get article ''mesh_terms'' (Seq [])) (\<lambda>mesh_terms.
     py_bind (if truthy pub_types
              then py_bind (py_join_any '', '' pub_types) (\<lambda>j.
                     Inr [nl @ ''**Publication Types:** '' @ j])
              else Inr []) (\<lambda>types_part.
     py_bind (if truthy keywords
              then py_bind (py_join_any '', '' keywords) (\<lambda>j.
                     Inr [nl @ ''**'' @ label_sign @ '' Keywords:** '' @ j])
              else Inr []) (\<lambda>keywords_part.
     py_bind (if truthy mesh_terms
              then py_bind (py_join_any '', '' mesh_terms) (\<lambda>j.
                     Inr [nl @ ''**'' @ microscope_sign @ '' MeSH Terms:** '' @ j])
              else Inr []) (\<lambda>mesh_part.
       Inr (details_head rp pmid title authors journal journal_iso pub_date doi
            @ links_section rp pmid doi
            @ types_part
            @ (if truthy abstract
               then [nl @ ''## '' @ clipboard_sign @ '' Abstract'' @ nl @ nl @ py_str rp abstract]
               else [])
            @ keywords_part
            @ mesh_part)))))))))))))))"

definition format_article_details :: "(node \<Rightarrow> string) \<Rightarrow> node \<Rightarrow> py_error + string" where
  "format_article_details rp article =
     py_bind (details rp article) (\<lambda>ds. Inr (join_str nl ds))"

section \<open>Notions used in the statements\<close>

text \<open>The value a mapping holds for a key, or a default; \<open>field\<close> defaults to the empty
  text, as most \<^verbatim>\<open>get\<close> calls of the source do.\<close>

definition get_or :: "node \<Rightarrow> string \<Rightarrow> node \<Rightarrow> node" where
  "get_or a k d =
     (case a of Dict kvs \<Rightarrow> (case map_of kvs k of Some v \<Rightarrow> v | None \<Rightarrow> d) | _ \<Rightarrow> d)"

definition field :: "node \<Rightarrow> string \<Rightarrow> node" where
  "field a k = get_or a k (Str [])"

text \<open>One printing of mappings and sequences, for the examples.\<close>

definition plain :: "node \<Rightarrow> string" where
  "plain v = ''<object>''"

subsection \<open>Authors\<close>

text \<open>An entry has a last name when it is a mapping whose \<^verbatim>\<open>LastName\<close> is a non-empty
  text; \<open>named\<close> is the source's weaker test, a mapping whose \<^verbatim>\<open>LastName\<close> is true in a
  condition.\<close>

definition has_last_name :: "node \<Rightarrow> bool" where
  "has_last_name a = (is_dict a \<and> is_str (field a ''LastName'') \<and> truthy (field a ''LastName''))"

definition named :: "node \<Rightarrow> bool" where
  "named a = (is_dict a \<and> truthy (field a ''LastName''))"

text \<open>The formatted name: last name and fore name, else last name and initials, else the
  last name alone.\<close>

definition formatted_name :: "(node \<Rightarrow> string) \<Rightarrow> node \<Rightarrow> string" where
  "formatted_name rp a =
     (if truthy (field a ''ForeName'')
      then py_str rp (field a ''LastName'') @ '' '' @ py_str rp (field a ''ForeName'')
      else if truthy (field a ''Initials'')
      then py_str rp (field a ''LastName'') @ '' '' @ py_str rp (field a ''Initials'')
      else py_str rp (field a ''LastName''))"

text \<open>What one entry adds to \<^verbatim>\<open>author_names\<close>: nothing, a formatted name, or the value of
  \<^verbatim>\<open>LastName\<close> itself when there is neither a fore name nor initials.\<close>

definition entry_names :: "(node \<Rightarrow> string) \<Rightarrow> node \<Rightarrow> node list" where
  "entry_names rp a =
     (if named a then
        [if truthy (field a ''ForeName'') \<or> truthy (field a ''Initials'')
         then Str (formatted_name rp a) else field a ''LastName'']
      else [])"

text \<open>A last name that would be rendered alone is a text.\<close>

definition bare_name_is_text :: "node \<Rightarrow> bool" where
  "bare_name_is_text a =
     (\<not> (named a \<and> \<not> truthy (field a ''ForeName'') \<and> \<not> truthy (field a ''Initials''))
      \<or> is_str (field a ''LastName''))"

subsection \<open>Keywords\<close>

text \<open>The text of one keyword entry, if it has one: the inner text of a mapping, the
  printed form of anything else that is true in a condition.\<close>

definition entry_text :: "(node \<Rightarrow> string) \<Rightarrow> node \<Rightarrow> string list" where
  "entry_text rp k =
     (if is_dict k then (case field k ''#text'' of Str s \<Rightarrow> (if s = [] then [] else [s]) | _ \<Rightarrow> [])
      else if truthy k then [py_str rp k] else [])"

definition keyword_texts :: "(node \<Rightarrow> string) \<Rightarrow> node list \<Rightarrow> string list" where
  "keyword_texts rp ks = concat (map (entry_text rp) ks)"

text \<open>The inner text of a mapping entry is a text, or is empty or absent.\<close>

definition inner_text_ok :: "node \<Rightarrow> bool" where
  "inner_text_ok k = (\<not> is_dict k \<or> is_str (field k ''#text'') \<or> \<not> truthy (field k ''#text''))"

text \<open>The first occurrence of each case-insensitively distinct text, in input order.\<close>

fun first_occurrences :: "string list \<Rightarrow> string list" where
  "first_occurrences [] = []"
| "first_occurrences (t # ts) = t # first_occurrences (filter (\<lambda>u. lower u \<noteq> lower t) ts)"

text \<open>What the loop of \<^verbatim>\<open>_extract_keywords\<close> keeps of a list of texts, given the set of
  lower-case forms already seen.\<close>

fun unseen :: "string set \<Rightarrow> string list \<Rightarrow> string list" where
  "unseen S [] = []"
| "unseen S (t # ts) =
     (if lower t \<in> S then unseen S ts else t # unseen (insert (lower t) S) ts)"

subsection \<open>Publications of a batch\<close>

text \<open>The publications of the documents whose build does not raise, in the documents'
  order.\<close>

definition publications :: "(node \<Rightarrow> string) \<Rightarrow> node list \<Rightarrow> node list" where
  "publications rp docs =
     concat (map (\<lambda>d. case single_article_body rp d of Inl e \<Rightarrow> [] | Inr a \<Rightarrow> [a]) docs)"

subsection \<open>Publication records and the optional sections of the detail view\<close>

definition string_list :: "node \<Rightarrow> bool" where
  "string_list v = (case v of Seq xs \<Rightarrow> list_all is_str xs | _ \<Rightarrow> False)"

text \<open>A publication record is a mapping whose keywords, publication types and MeSH terms
  are sequences of texts.\<close>

definition publication :: "node \<Rightarrow> bool" where
  "publication a =
     (is_dict a \<and> string_list (get_or a ''keywords'' (Seq []))
      \<and> string_list (get_or a ''publication_types'' (Seq []))
      \<and> string_list (get_or a ''mesh_terms'' (Seq [])))"

definition optional_empty :: "node \<Rightarrow> bool" where
  "optional_empty a =
     (is_dict a \<and> list_all (\<lambda>k. \<not> truthy (field a k))
        [''journal_iso'', ''doi'', ''publication_types'', ''abstract'', ''keywords'', ''mesh_terms''])"

text \<open>How the items of the optional sections begin.\<close>

definition optional_headers :: "string list" where
  "optional_headers =
     [''**Journal (ISO):**'', ''**DOI:**'', nl @ ''**Publication Types:**'',
      nl @ ''## '' @ clipboard_sign @ '' Abstract'', nl @ ''**'' @ label_sign @ '' Keywords:**'',
      nl @ ''**'' @ microscope_sign @ '' MeSH Terms:**'']"

definition no_optional_item :: "string list \<Rightarrow> bool" where
  "no_optional_item ds = list_all (\<lambda>d. list_all (\<lambda>h. \<not> prefix h d) optional_headers) ds"

text \<open>The items of the detail view that every publication has.\<close>

definition mandatory_items :: "(node \<Rightarrow> string) \<Rightarrow> node \<Rightarrow> string list" where
  "mandatory_items rp a =
     (let pmid = py_str rp (get_or a ''pmid'' (Str ''Unknown''))
      in [''# '' @ page_sign @ '' Publication Details - PMID '' @ pmid @ nl,
          ''## '' @ py_str rp (get_or a ''title'' (Str ''No title'')) @ nl,
          ''**Authors:** '' @ py_str rp (get_or a ''authors'' (Str ''No authors'')) @ nl,
          ''**Journal:** '' @ py_str rp (get_or a ''journal'' (Str ''Unknown journal'')),
          ''**Published:** '' @ py_str rp (get_or a ''pub_date'' (Str ''Unknown date'')),
          ''**PMID:** '' @ pmid,
          nl @ ''## '' @ link_sign @ '' Quick Access Links'',
          bullet @ '' ['' @ page_sign @ '' **View on PubMed**](https://pubmed.ncbi.nlm.nih.gov/''
            @ pmid @ ''/) - Official PubMed page'',
          bullet @ '' ['' @ magnifier_sign
            @ '' **Search Full Text**](https://pubmed.ncbi.nlm.nih.gov/''
            @ pmid @ ''/) - Look for free full text'',
          bullet @ '' ['' @ chart_sign
            @ '' **Citation Analysis**](https://scholar.google.com/scholar?q=''
            @ pmid @ '') - Google Scholar citations'',
          bullet @ '' ['' @ link_sign
            @ '' **Find Similar**](https://pubmed.ncbi.nlm.nih.gov/sites/pubmed/?linkname=pubmed_pubmed&from_uid=''
            @ pmid @ '') - Related articles''])"

section \<open>Basic facts\<close>

declare digits.simps [simp del]

lemma py_bind_simps [simp]:
  "py_bind (Inl e) f = Inl e"
  "py_bind (Inr v) f = f v"
  by (simp_all add: py_bind_def)

lemma py_except_simps [simp]:
  "py_except (Inl e) h = h"
  "py_except (Inr v) h = Inr v"
  by (simp_all add: py_except_def)

lemma py_get_Dict: "is_dict a \<Longrightarrow> py_get a k d = Inr (get_or a k d)"
  by (cases a) (simp_all add: get_or_def)

section \<open>Totality of the extractors\<close>

text \<open>
  C1. Each of the seven field extractors returns a value on every input, of any shape;
  when its body raises, the value is the extractor's default: the placeholder text, the
  empty text or the empty list.
\<close>

theorem extractors_total:
  "(\<exists>v. extract_authors rp n = Inr v) \<and>
   (\<exists>v. extract_pub_date n = Inr v) \<and>
   (\<exists>v. extract_abstract rp n = Inr v) \<and>
   (\<exists>v. extract_doi n = Inr v) \<and>
   (\<exists>v. extract_keywords rp n = Inr v) \<and>
   (\<exists>v. extract_publication_types rp n = Inr v) \<and>
   (\<exists>v. extract_mesh_terms n = Inr v) \<and>
   (\<forall>e. authors_body rp n = Inl e \<longrightarrow> extract_authors rp n = Inr ''Authors not available'') \<and>
   (\<forall>e. pub_date_body n = Inl e \<longrightarrow> extract_pub_date n = Inr (Str ''Date not available'')) \<and>
   (\<forall>e. abstract_body rp n = Inl e \<longrightarrow> extract_abstract rp n = Inr (Str [])) \<and>
   (\<forall>e. doi_body n = Inl e \<longrightarrow> extract_doi n = Inr (Str [])) \<and>
   (\<forall>e. keywords_body rp n = Inl e \<longrightarrow> extract_keywords rp n = Inr []) \<and>
   (\<forall>e. publication_types_body rp n = Inl e \<longrightarrow> extract_publication_types rp n = Inr []) \<and>
   (\<forall>e. mesh_terms_body n = Inl e \<longrightarrow> extract_mesh_terms n = Inr [])"
  unfolding extract_authors_def extract_pub_date_def extract_abstract_def extract_doi_def
    extract_keywords_def extract_publication_types_def extract_mesh_terms_def py_except_def
  by (simp split: sum.split)

theorem extractors_total_witness:
  "authors_body plain (Dict [(''Author'', Dict [(''LastName'', Dict [(''@EmptyYN'', Str ''Y'')])])])
     = Inl TypeError \<and>
   extract_authors plain (Dict [(''Author'', Dict [(''LastName'', Dict [(''@EmptyYN'', Str ''Y'')])])])
     = Inr ''Authors not available'' \<and>
   pub_date_body (Dict [(''PubDate'', Dict [(''Year'', Seq [Str ''2020'', Str ''2021''])])])
     = Inl TypeError \<and>
   extract_pub_date (Dict [(''PubDate'', Dict [(''Year'', Seq [Str ''2020'', Str ''2021''])])])
     = Inr (Str ''Date not available'') \<and>
   abstract_body plain (Seq []) = Inl AttributeError \<and>
   extract_abstract plain (Seq []) = Inr (Str []) \<and>
   doi_body (Dict [(''@EIdType'', PyNone)]) = Inl AttributeError \<and>
   extract_doi (Dict [(''@EIdType'', PyNone)]) = Inr (Str []) \<and>
   keywords_body plain (Dict [(''Keyword'', Seq [Str ''AI'', Dict [(''#text'', Seq [Str ''x''])]])])
     = Inl AttributeError \<and>
   extract_keywords plain (Dict [(''Keyword'', Seq [Str ''AI'', Dict [(''#text'', Seq [Str ''x''])]])])
     = Inr [] \<and>
   publication_types_body plain (Str ''Review'') = Inl AttributeError \<and>
   extract_publication_types plain (Str ''Review'') = Inr [] \<and>
   mesh_terms_body PyNone = Inl AttributeError \<and>
   extract_mesh_terms PyNone = Inr []"
proof -
  have b1: "authors_body plain (Dict [(''Author'', Dict [(''LastName'', Dict [(''@EmptyYN'', Str ''Y'')])])])
     = Inl TypeError" by code_simp
  have b2: "pub_date_body (Dict [(''PubDate'', Dict [(''Year'', Seq [Str ''2020'', Str ''2021''])])])
     = Inl TypeError" by code_simp
  have b3: "abstract_body plain (Seq []) = Inl AttributeError" by code_simp
  have b4: "doi_body (Dict [(''@EIdType'', PyNone)]) = Inl AttributeError" by code_simp
  have b5: "keywords_body plain (Dict [(''Keyword'', Seq [Str ''AI'', Dict [(''#text'', Seq [Str ''x''])]])])
     = Inl AttributeError" by code_simp
  have b6: "publication_types_body plain (Str ''Review'') = Inl AttributeError" by code_simp
  have b7: "mesh_terms_body PyNone = Inl AttributeError" by code_simp
  have e1: "extract_authors plain (Dict [(''Author'', Dict [(''LastName'', Dict [(''@EmptyYN'', Str ''Y'')])])])
     = Inr ''Authors not available''"
    using b1 extractors_total [of plain "Dict [(''Author'', Dict [(''LastName'', Dict [(''@EmptyYN'', Str ''Y'')])])]"]
    by simp
  have e2: "extract_pub_date (Dict [(''PubDate'', Dict [(''Year'', Seq [Str ''2020'', Str ''2021''])])])
     = Inr (Str ''Date not available'')"
    using b2 extractors_total [of plain "Dict [(''PubDate'', Dict [(''Year'', Seq [Str ''2020'', Str ''2021''])])]"]
    by simp
  have e3: "extract_abstract plain (Seq []) = Inr (Str [])"
    using b3 extractors_total [of plain "Seq []"] by simp
  have e4: "extract_doi (Dict [(''@EIdType'', PyNone)]) = Inr (Str [])"
    using b4 extractors_total [of plain "Dict [(''@EIdType'', PyNone)]"] by simp
  have e5: "extract_keywords plain (Dict [(''Keyword'', Seq [Str ''AI'', Dict [(''#text'', Seq [Str ''x''])]])])
     = Inr []"
    using b5 extractors_total [of plain "Dict [(''Keyword'', Seq [Str ''AI'', Dict [(''#text'', Seq [Str ''x''])]])]"]
    by simp
  have e6: "extract_publication_types plain (Str ''Review'') = Inr []"
    using b6 extractors_total [of plain "Str ''Review''"] by simp
  have e7: "extract_mesh_terms PyNone = Inr []"
    using b7 extractors_total [of plain PyNone] by simp
  show ?thesis
    using b1 b2 b3 b4 b5 b6 b7 e1 e2 e3 e4 e5 e6 e7 by simp
qed

section \<open>Query augmentation\<close>

lemma decimal_digit_char: "c \<in> set ''0123456789'' \<Longrightarrow> digit_char c"
  by (auto simp: digit_char_def)

lemma four_decimal_digits_isdigit:
  assumes "four_decimal_digits t"
  shows "isdigit t \<and> length t = 4"
proof -
  from assms have len: "length t = 4" and all: "\<forall>c\<in>set t. c \<in> set ''0123456789''"
    by (simp_all add: four_decimal_digits_def list_all_iff)
  from len have "t \<noteq> []" by auto
  moreover from all have "list_all digit_char t"
    using decimal_digit_char by (simp add: list_all_iff)
  ultimately show ?thesis using len by (simp add: isdigit_def)
qed
text \<open>
  C3. The date range rule table: an empty token leaves the query unchanged;
  \<^verbatim>\<open>last_5_years\<close> and \<^verbatim>\<open>last_year\<close> append the range from five years, or one year,
  before the current year to the current year; a token with a colon is appended as it
  is; a token of four decimal digits is appended, and so is any token of four
  characters that \<^verbatim>\<open>str.isdigit\<close> accepts; every other token leaves the query unchanged.
\<close>

theorem search_query_rules:
  "(date_range = [] \<longrightarrow> search_query current_year query date_range = query) \<and>
   (date_range = ''last_5_years'' \<longrightarrow>
      search_query current_year query date_range =
        query @ '' AND '' @ str_int (current_year - 5) @ '':'' @ str_int current_year @ ''[pdat]'') \<and>
   (date_range = ''last_year'' \<longrightarrow>
      search_query current_year query date_range =
        query @ '' AND '' @ str_int (current_year - 1) @ '':'' @ str_int current_year @ ''[pdat]'') \<and>
   (CHR '':'' \<in> set date_range \<longrightarrow>
      search_query current_year query date_range = query @ '' AND '' @ date_range @ ''[pdat]'') \<and>
   (four_decimal_digits date_range \<longrightarrow>
      search_query current_year query date_range = query @ '' AND '' @ date_range @ ''[pdat]'') \<and>
   (length date_range = 4 \<and> isdigit date_range \<longrightarrow>
      search_query current_year query date_range = query @ '' AND '' @ date_range @ ''[pdat]'') \<and>
   (date_range \<noteq> ''last_5_years'' \<and> date_range \<noteq> ''last_year'' \<and> CHR '':'' \<notin> set date_range
      \<and> \<not> (length date_range = 4 \<and> isdigit date_range) \<longrightarrow>
      search_query current_year query date_range = query)"
proof -
  have colon: "date_range \<noteq> [] \<and> date_range \<noteq> ''last_5_years'' \<and> date_range \<noteq> ''last_year''"
    if "CHR '':'' \<in> set date_range"
    using that by auto
  have digit: "date_range \<noteq> [] \<and> date_range \<noteq> ''last_5_years'' \<and> date_range \<noteq> ''last_year''"
    if "length date_range = 4"
    using that by auto
  have r1: "date_range = [] \<longrightarrow> search_query current_year query date_range = query"
    by (simp add: search_query_def)
  have r2: "date_range = ''last_5_years'' \<longrightarrow>
      search_query current_year query date_range =
        query @ '' AND '' @ str_int (current_year - 5) @ '':'' @ str_int current_year @ ''[pdat]''"
    by (simp add: search_query_def)
  have r3: "date_range = ''last_year'' \<longrightarrow>
      search_query current_year query date_range =
        query @ '' AND '' @ str_int (current_year - 1) @ '':'' @ str_int current_year @ ''[pdat]''"
    by (simp add: search_query_def)
  have r4: "CHR '':'' \<in> set date_range \<longrightarrow>
      search_query current_year query date_range = query @ '' AND '' @ date_range @ ''[pdat]''"
    using colon by (simp add: search_query_def)
  have r6: "length date_range = 4 \<and> isdigit date_range \<longrightarrow>
      search_query current_year query date_range = query @ '' AND '' @ date_range @ ''[pdat]''"
    using digit by (simp add: search_query_def)
  have r5: "four_decimal_digits date_range \<longrightarrow>
      search_query current_year query date_range = query @ '' AND '' @ date_range @ ''[pdat]''"
    using r6 four_decimal_digits_isdigit [of date_range] by blast
  have r7: "date_range \<noteq> ''last_5_years'' \<and> date_range \<noteq> ''last_year'' \<and> CHR '':'' \<notin> set date_range
      \<and> \<not> (length date_range = 4 \<and> isdigit date_range) \<longrightarrow>
      search_query current_year query date_range = query"
    by (simp add: search_query_def)
  show ?thesis
    using r1 r2 r3 r4 r5 r6 r7 by blast
qed

lemma str_int_examples:
  "str_int (2024 - 5) = ''2019''" "str_int (2024 - 1) = ''2023''" "str_int 2024 = ''2024''"
  by code_simp+

theorem search_query_rules_witness:
  "search_query 2024 ''cancer'' [] = ''cancer'' \<and>
   search_query 2024 ''cancer'' ''last_5_years'' = ''cancer AND 2019:2024[pdat]'' \<and>
   search_query 2024 ''cancer'' ''last_year'' = ''cancer AND 2023:2024[pdat]'' \<and>
   CHR '':'' \<in> set ''2020:2024'' \<and>
   search_query 2024 ''cancer'' ''2020:2024'' = ''cancer AND 2020:2024[pdat]'' \<and>
   four_decimal_digits ''2023'' \<and> length ''2023'' = 4 \<and> isdigit ''2023'' \<and>
   search_query 2024 ''cancer'' ''2023'' = ''cancer AND 2023[pdat]'' \<and>
   \<not> (length ''bogus'' = 4 \<and> isdigit ''bogus'') \<and>
   search_query 2024 ''cancer'' ''bogus'' = ''cancer''"
proof -
  have d: "four_decimal_digits ''2023''" "isdigit ''2023''"
    by (simp_all add: four_decimal_digits_def isdigit_def digit_char_def)
  have r1: "search_query 2024 ''cancer'' [] = ''cancer''"
    using search_query_rules [of "[]" 2024 "''cancer''"] by simp
  have r2: "search_query 2024 ''cancer'' ''last_5_years'' = ''cancer AND 2019:2024[pdat]''"
    using search_query_rules [of "''last_5_years''" 2024 "''cancer''"] str_int_examples by simp
  have r3: "search_query 2024 ''cancer'' ''last_year'' = ''cancer AND 2023:2024[pdat]''"
    using search_query_rules [of "''last_year''" 2024 "''cancer''"] str_int_examples by simp
  have r4: "search_query 2024 ''cancer'' ''2020:2024'' = ''cancer AND 2020:2024[pdat]''"
    using search_query_rules [of "''2020:2024''" 2024 "''cancer''"] by simp
  have r5: "search_query 2024 ''cancer'' ''2023'' = ''cancer AND 2023[pdat]''"
    using search_query_rules [of "''2023''" 2024 "''cancer''"] d by simp
  have r6: "search_query 2024 ''cancer'' ''bogus'' = ''cancer''"
    using search_query_rules [of "''bogus''" 2024 "''cancer''"] by simp
  show ?thesis using d r1 r2 r3 r4 r5 r6 by simp
qed

text \<open>
  A token of four superscript twos is not empty, not a literal of the table, has no
  colon and is not four decimal digits, and the query is changed all the same.
\<close>

theorem search_query_superscript_counterexample:
  "[CHR 0xB2, CHR 0xB2, CHR 0xB2, CHR 0xB2] \<noteq> [] \<and>
   [CHR 0xB2, CHR 0xB2, CHR 0xB2, CHR 0xB2] \<noteq> ''last_5_years'' \<and>
   [CHR 0xB2, CHR 0xB2, CHR 0xB2, CHR 0xB2] \<noteq> ''last_year'' \<and>
   CHR '':'' \<notin> set [CHR 0xB2, CHR 0xB2, CHR 0xB2, CHR 0xB2] \<and>
   \<not> four_decimal_digits [CHR 0xB2, CHR 0xB2, CHR 0xB2, CHR 0xB2] \<and>
   search_query 2024 ''cancer'' [CHR 0xB2, CHR 0xB2, CHR 0xB2, CHR 0xB2]
     = ''cancer AND '' @ [CHR 0xB2, CHR 0xB2, CHR 0xB2, CHR 0xB2] @ ''[pdat]'' \<and>
   search_query 2024 ''cancer'' [CHR 0xB2, CHR 0xB2, CHR 0xB2, CHR 0xB2] \<noteq> ''cancer''"
  by (simp add: search_query_def four_decimal_digits_def isdigit_def digit_char_def)

section \<open>Authors\<close>

lemma for_each_append:
  assumes "\<And>x s. x \<in> set xs \<Longrightarrow> body x s = Inr (s @ f x)"
  shows "for_each body xs s = Inr (s @ concat (map f xs))"
  using assms by (induction xs arbitrary: s) simp_all

lemma author_step_names: "author_step rp a names = Inr (names @ entry_names rp a)"
  by (cases a)
     (simp_all add: author_step_def entry_names_def named_def formatted_name_def field_def
        get_or_def split: option.split)

lemma author_loop: "for_each (author_step rp) as [] = Inr (concat (map (entry_names rp) as))"
  using for_each_append [of as "author_step rp" "entry_names rp" "[]"]
  by (simp add: author_step_names)

lemma entry_names_text:
  assumes "bare_name_is_text a"
  shows "entry_names rp a = (if named a then [Str (formatted_name rp a)] else [])"
proof (cases "named a \<and> \<not> truthy (field a ''ForeName'') \<and> \<not> truthy (field a ''Initials'')")
  case True
  with assms obtain s where s: "field a ''LastName'' = Str s"
    by (cases "field a ''LastName''") (simp_all add: bare_name_is_text_def)
  with True show ?thesis
    by (simp add: entry_names_def formatted_name_def)
next
  case False
  then show ?thesis
    by (auto simp: entry_names_def)
qed

lemma str_items_names:
  assumes "\<forall>a\<in>set as. bare_name_is_text a"
  shows "str_items (concat (map (entry_names rp) as))
         = Inr (map (formatted_name rp) (filter named as))"
  using assms by (induction as) (simp_all add: entry_names_text)

lemma concat_names_empty:
  "(concat (map (entry_names rp) as) = []) = (filter named as = [])"
  by (induction as) (simp_all add: entry_names_def)

lemma authors_body_names:
  assumes get: "py_get author_list ''Author'' (Seq []) = Inr v"
    and ok: "\<forall>a\<in>set (take 15 (wrap_list v)). bare_name_is_text a"
  shows "authors_body rp author_list =
     Inr (let names = map (formatted_name rp) (filter named (take 15 (wrap_list v)))
          in if 15 < length (wrap_list v) then join_str '', '' names @ '', et al.''
             else if names \<noteq> [] then join_str '', '' names
             else ''Authors not available'')"
proof -
  define t where "t = take 15 (wrap_list v)"
  have items: "str_items (concat (map (entry_names rp) t)) = Inr (map (formatted_name rp) (filter named t))"
    using ok str_items_names [of t rp] by (simp add: t_def)
  have empty: "(concat (map (entry_names rp) t) = []) = (filter named t = [])"
    by (rule concat_names_empty)
  have body: "authors_body rp author_list =
      (if 15 < length (wrap_list v) then
         py_bind (py_join '', '' (concat (map (entry_names rp) t))) (\<lambda>j. Inr (j @ '', et al.''))
       else if concat (map (entry_names rp) t) \<noteq> [] then py_join '', '' (concat (map (entry_names rp) t))
       else Inr ''Authors not available'')"
    using get by (simp add: authors_body_def author_loop Let_def t_def)
  have join: "py_join '', '' (concat (map (entry_names rp) t))
      = Inr (join_str '', '' (map (formatted_name rp) (filter named t)))"
    by (simp add: py_join_def items)
  show ?thesis
    unfolding body join t_def [symmetric] Let_def
    using empty by simp
qed

lemma has_last_name_named: "has_last_name a \<Longrightarrow> named a \<and> bare_name_is_text a"
  by (simp add: has_last_name_def named_def bare_name_is_text_def)

text \<open>
  C4. When every entry of the author list has a last name, the extracted string is the
  formatted names of the first 15 entries joined by a comma and a space, followed by
  \<^verbatim>\<open>, et al.\<close> when the list has more than 15 entries and by nothing otherwise (an
  empty list gives the placeholder); a list of 20 entries yields 15 names and the marker.
\<close>

theorem authors_truncation:
  assumes get: "py_get author_list ''Author'' (Seq []) = Inr v"
    and names: "\<forall>a\<in>set (wrap_list v). has_last_name a"
  shows "extract_authors rp author_list =
           Inr (if 15 < length (wrap_list v)
                then join_str '', '' (map (formatted_name rp) (take 15 (wrap_list v))) @ '', et al.''
                else if wrap_list v = [] then ''Authors not available''
                else join_str '', '' (map (formatted_name rp) (wrap_list v)))
         \<and> (length (wrap_list v) = 20 \<longrightarrow>
              length (map (formatted_name rp) (take 15 (wrap_list v))) = 15)"
proof -
  have all: "\<forall>a\<in>set (take 15 (wrap_list v)). named a \<and> bare_name_is_text a"
    using names has_last_name_named by (meson in_set_takeD)
  then have keep: "filter named (take 15 (wrap_list v)) = take 15 (wrap_list v)"
    by (simp add: filter_id_conv)
  have "authors_body rp author_list =
     Inr (let names = map (formatted_name rp) (filter named (take 15 (wrap_list v)))
          in if 15 < length (wrap_list v) then join_str '', '' names @ '', et al.''
             else if names \<noteq> [] then join_str '', '' names
             else ''Authors not available'')"
    using get all by (intro authors_body_names) simp_all
  then show ?thesis
    by (auto simp: extract_authors_def keep Let_def)
qed

theorem authors_truncation_witness:
  "list_all has_last_name
     (wrap_list (Seq ([Dict [(''LastName'', Str ''Smith''), (''ForeName'', Str ''John'')],
        Dict [(''LastName'', Str ''Doe''), (''Initials'', Str ''A'')],
        Dict [(''LastName'', Str ''Roe'')]] @ replicate 17 (Dict [(''LastName'', Str ''Lee'')])))) \<and>
   extract_authors plain (Dict [(''Author'',
     Seq ([Dict [(''LastName'', Str ''Smith''), (''ForeName'', Str ''John'')],
           Dict [(''LastName'', Str ''Doe''), (''Initials'', Str ''A'')],
           Dict [(''LastName'', Str ''Roe'')]] @ replicate 17 (Dict [(''LastName'', Str ''Lee'')])))])
     = Inr ''Smith John, Doe A, Roe, Lee, Lee, Lee, Lee, Lee, Lee, Lee, Lee, Lee, Lee, Lee, Lee, et al.'' \<and>
   extract_authors plain (Dict [(''Author'',
     Seq [Dict [(''LastName'', Str ''Smith''), (''ForeName'', Str ''John'')],
          Dict [(''LastName'', Str ''Doe''), (''Initials'', Str ''A'')]])])
     = Inr ''Smith John, Doe A''"
proof -
  define many where "many = [Dict [(''LastName'', Str ''Smith''), (''ForeName'', Str ''John'')],
        Dict [(''LastName'', Str ''Doe''), (''Initials'', Str ''A'')],
        Dict [(''LastName'', Str ''Roe'')]] @ replicate 17 (Dict [(''LastName'', Str ''Lee'')])"
  define few where "few = [Dict [(''LastName'', Str ''Smith''), (''ForeName'', Str ''John'')],
        Dict [(''LastName'', Str ''Doe''), (''Initials'', Str ''A'')]]"
  have g1: "py_get (Dict [(''Author'', Seq many)]) ''Author'' (Seq []) = Inr (Seq many)"
    and g2: "py_get (Dict [(''Author'', Seq few)]) ''Author'' (Seq []) = Inr (Seq few)"
    by simp_all
  have n1: "\<forall>a\<in>set (wrap_list (Seq many)). has_last_name a"
    unfolding many_def by code_simp
  have n2: "\<forall>a\<in>set (wrap_list (Seq few)). has_last_name a"
    unfolding few_def by code_simp
  have v1: "(if 15 < length (wrap_list (Seq many))
         then join_str '', '' (map (formatted_name plain) (take 15 (wrap_list (Seq many)))) @ '', et al.''
         else if wrap_list (Seq many) = [] then ''Authors not available''
         else join_str '', '' (map (formatted_name plain) (wrap_list (Seq many))))
       = ''Smith John, Doe A, Roe, Lee, Lee, Lee, Lee, Lee, Lee, Lee, Lee, Lee, Lee, Lee, Lee, et al.''"
    unfolding many_def by code_simp
  have v2: "(if 15 < length (wrap_list (Seq few))
         then join_str '', '' (map (formatted_name plain) (take 15 (wrap_list (Seq few)))) @ '', et al.''
         else if wrap_list (Seq few) = [] then ''Authors not available''
         else join_str '', '' (map (formatted_name plain) (wrap_list (Seq few))))
       = ''Smith John, Doe A''"
    unfolding few_def by code_simp
  have e1: "extract_authors plain (Dict [(''Author'', Seq many)])
      = Inr ''Smith John, Doe A, Roe, Lee, Lee, Lee, Lee, Lee, Lee, Lee, Lee, Lee, Lee, Lee, Lee, et al.''"
    using authors_truncation [OF g1 n1, of plain] by (simp only: v1)
  have e2: "extract_authors plain (Dict [(''Author'', Seq few)]) = Inr ''Smith John, Doe A''"
    using authors_truncation [OF g2 n2, of plain] by (simp only: v2)
  show ?thesis
    using n1 e1 e2 unfolding many_def few_def list_all_iff by blast
qed

text \<open>
  C10. When the author list has more than 15 entries and every last name that is rendered
  alone is a text, the extracted string is the formatted names of those of the first 15
  entries that have a last name, joined, followed by \<^verbatim>\<open>, et al.\<close>: it ends with the marker
  however many names were rendered, there are at most 15 of them, and when none of the
  first 15 entries has a last name the string is the marker alone.
\<close>

theorem et_al_marker_raw_count:
  assumes get: "py_get author_list ''Author'' (Seq []) = Inr v"
    and len: "15 < length (wrap_list v)"
    and ok: "\<forall>a\<in>set (take 15 (wrap_list v)). bare_name_is_text a"
  shows "extract_authors rp author_list =
           Inr (join_str '', '' (map (formatted_name rp) (filter named (take 15 (wrap_list v))))
                @ '', et al.'')
         \<and> (\<exists>r. extract_authors rp author_list = Inr r \<and> suffix '', et al.'' r)
         \<and> length (filter named (take 15 (wrap_list v))) \<le> 15
         \<and> ((\<forall>a\<in>set (take 15 (wrap_list v)). \<not> named a) \<longrightarrow>
              extract_authors rp author_list = Inr '', et al.'')"
proof -
  have e: "extract_authors rp author_list =
      Inr (join_str '', '' (map (formatted_name rp) (filter named (take 15 (wrap_list v))))
           @ '', et al.'')"
    using authors_body_names [OF get ok, of rp] len
    by (simp add: extract_authors_def Let_def)
  have s: "\<exists>r. extract_authors rp author_list = Inr r \<and> suffix '', et al.'' r"
    unfolding e by (simp add: suffix_def)
  have l: "length (filter named (take 15 (wrap_list v))) \<le> 15"
    by (rule order_trans [OF length_filter_le]) simp
  have n: "extract_authors rp author_list = Inr '', et al.''"
    if "\<forall>a\<in>set (take 15 (wrap_list v)). \<not> named a"
  proof -
    from that have "filter named (take 15 (wrap_list v)) = []"
      by (simp add: filter_empty_conv)
    with e show ?thesis by simp
  qed
  from e s l n show ?thesis by blast
qed

theorem et_al_marker_raw_count_witness:
  "15 < length (wrap_list (Seq (Dict [(''LastName'', Str ''Smith''), (''ForeName'', Str ''John'')]
        # replicate 15 (Dict [(''ForeName'', Str ''Ann'')])))) \<and>
   extract_authors plain (Dict [(''Author'',
       Seq (Dict [(''LastName'', Str ''Smith''), (''ForeName'', Str ''John'')]
            # replicate 15 (Dict [(''ForeName'', Str ''Ann'')])))])
     = Inr ''Smith John, et al.'' \<and>
   extract_authors plain (Dict [(''Author'', Seq (replicate 16 (Dict [(''ForeName'', Str ''Ann'')])))])
     = Inr '', et al.''"
proof -
  define one where "one = Dict [(''LastName'', Str ''Smith''), (''ForeName'', Str ''John'')]
        # replicate 15 (Dict [(''ForeName'', Str ''Ann'')])"
  define none where "none = replicate 16 (Dict [(''ForeName'', Str ''Ann'')])"
  have g1: "py_get (Dict [(''Author'', Seq one)]) ''Author'' (Seq []) = Inr (Seq one)"
    and g2: "py_get (Dict [(''Author'', Seq none)]) ''Author'' (Seq []) = Inr (Seq none)"
    by simp_all
  have l1: "15 < length (wrap_list (Seq one))" and l2: "15 < length (wrap_list (Seq none))"
    by (simp_all add: one_def none_def)
  have o1: "\<forall>a\<in>set (take 15 (wrap_list (Seq one))). bare_name_is_text a"
    unfolding one_def by code_simp
  have o2: "\<forall>a\<in>set (take 15 (wrap_list (Seq none))). bare_name_is_text a"
    unfolding none_def by code_simp
  have u: "\<forall>a\<in>set (take 15 (wrap_list (Seq none))). \<not> named a"
    unfolding none_def by code_simp
  have v1: "join_str '', '' (map (formatted_name plain) (filter named (take 15 (wrap_list (Seq one)))))
        @ '', et al.'' = ''Smith John, et al.''"
    unfolding one_def by code_simp
  have e1: "extract_authors plain (Dict [(''Author'', Seq one)]) = Inr ''Smith John, et al.''"
    using et_al_marker_raw_count [OF g1 l1 o1, of plain] by (simp only: v1)
  have e2: "extract_authors plain (Dict [(''Author'', Seq none)]) = Inr '', et al.''"
    using et_al_marker_raw_count [OF g2 l2 o2, of plain] u by blast
  show ?thesis
    using l1 e1 e2 unfolding one_def none_def by blast
qed

text \<open>
  Sixteen entries, the first with a \<^verbatim>\<open>LastName\<close> that is a mapping of one attribute and
  with no fore name or initials: the join fails and the placeholder is returned, without
  the marker.
\<close>

theorem et_al_marker_counterexample:
  "15 < length (Dict [(''LastName'', Dict [(''@EmptyYN'', Str ''Y'')])]
                # replicate 15 (Dict [(''LastName'', Str ''Lee'')])) \<and>
   extract_authors plain (Dict [(''Author'',
       Seq (Dict [(''LastName'', Dict [(''@EmptyYN'', Str ''Y'')])]
            # replicate 15 (Dict [(''LastName'', Str ''Lee'')])))])
     = Inr ''Authors not available'' \<and>
   \<not> suffix '', et al.'' ''Authors not available''"
  by code_simp

section \<open>Keywords\<close>

lemma unseen_filter: "unseen S ts = first_occurrences (filter (\<lambda>t. lower t \<notin> S) ts)"
proof (induction ts arbitrary: S)
  case Nil
  show ?case by simp
next
  case (Cons t ts)
  have "filter (\<lambda>u. lower u \<noteq> lower t) (filter (\<lambda>u. lower u \<notin> S) ts)
        = filter (\<lambda>u. lower u \<notin> insert (lower t) S) ts"
    by (simp add: conj_commute)
  with Cons show ?case by simp
qed

lemma unseen_empty: "unseen {} ts = first_occurrences ts"
  by (simp add: unseen_filter)

lemma unseen_append:
  "unseen S (xs @ ys) = unseen S xs @ unseen (S \<union> lower ` set xs) ys"
  by (induction xs arbitrary: S) (simp_all add: insert_absorb)

lemma set_first_occurrences: "set (first_occurrences ts) \<subseteq> set ts"
  by (induction ts rule: first_occurrences.induct) auto

lemma subseq_first_occurrences: "subseq (first_occurrences ts) ts"
proof (induction ts rule: first_occurrences.induct)
  case 1
  show ?case by simp
next
  case (2 t ts)
  have "subseq (filter (\<lambda>u. lower u \<noteq> lower t) ts) ts" by simp
  with 2 have "subseq (first_occurrences (filter (\<lambda>u. lower u \<noteq> lower t) ts)) ts"
    by (rule subseq_order.trans)
  then show ?case by simp
qed

lemma distinct_first_occurrences: "distinct (map lower (first_occurrences ts))"
proof (induction ts rule: first_occurrences.induct)
  case 1
  show ?case by simp
next
  case (2 t ts)
  have "lower t \<notin> lower ` set (first_occurrences (filter (\<lambda>u. lower u \<noteq> lower t) ts))"
    using set_first_occurrences [of "filter (\<lambda>u. lower u \<noteq> lower t) ts"] by auto
  with 2 show ?case by simp
qed

lemma cover_first_occurrences: "lower ` set (first_occurrences ts) = lower ` set ts"
proof (induction ts rule: first_occurrences.induct)
  case 1
  show ?case by simp
next
  case (2 t ts)
  then show ?case by auto
qed

lemma find_filter_weaker:
  "(\<And>x. Q x \<Longrightarrow> P x) \<Longrightarrow> find Q (filter P xs) = find Q xs"
  by (induction xs) auto

lemma casing_first_occurrences:
  "r \<in> set (first_occurrences ts) \<Longrightarrow> find (\<lambda>t. lower t = lower r) ts = Some r"
proof (induction ts rule: first_occurrences.induct)
  case 1
  then show ?case by simp
next
  case (2 t ts)
  show ?case
  proof (cases "r = t")
    case True
    then show ?thesis by simp
  next
    case False
    with 2 have r: "r \<in> set (first_occurrences (filter (\<lambda>u. lower u \<noteq> lower t) ts))"
      by simp
    then have ne: "lower r \<noteq> lower t"
      using set_first_occurrences [of "filter (\<lambda>u. lower u \<noteq> lower t) ts"] by auto
    from r 2 have "find (\<lambda>u. lower u = lower r) (filter (\<lambda>u. lower u \<noteq> lower t) ts) = Some r"
      by simp
    moreover have "find (\<lambda>u. lower u = lower r) (filter (\<lambda>u. lower u \<noteq> lower t) ts)
        = find (\<lambda>u. lower u = lower r) ts"
      using ne by (intro find_filter_weaker) simp
    ultimately show ?thesis using ne by simp
  qed
qed

lemma keyword_step_texts:
  assumes "inner_text_ok k"
  shows "keyword_step rp k (texts, seen) =
           Inr (texts @ map Str (unseen seen (entry_text rp k)),
                seen \<union> lower ` set (entry_text rp k))"
proof (cases "is_dict k")
  case True
  then have get: "py_get k ''#text'' (Str []) = Inr (field k ''#text'')"
    by (simp add: py_get_Dict field_def)
  show ?thesis
  proof (cases "field k ''#text''")
    case (Str s)
    with True get show ?thesis
      by (simp add: keyword_step_def entry_text_def insert_absorb)
  next
    case PyNone
    with True get show ?thesis
      by (simp add: keyword_step_def entry_text_def)
  next
    case (Dict kvs)
    with True assms have "kvs = []" by (simp add: inner_text_ok_def)
    with Dict True get show ?thesis
      by (simp add: keyword_step_def entry_text_def)
  next
    case (Seq xs)
    with True assms have "xs = []" by (simp add: inner_text_ok_def)
    with Seq True get show ?thesis
      by (simp add: keyword_step_def entry_text_def)
  qed
next
  case False
  then show ?thesis
    by (cases "truthy k") (auto simp: keyword_step_def entry_text_def insert_absorb)
qed

lemma keyword_loop:
  assumes "\<forall>k\<in>set ks. inner_text_ok k"
  shows "for_each (keyword_step rp) ks (texts, seen) =
           Inr (texts @ map Str (unseen seen (keyword_texts rp ks)),
                seen \<union> lower ` set (keyword_texts rp ks))"
  using assms
proof (induction ks arbitrary: texts seen)
  case Nil
  show ?case by (simp add: keyword_texts_def)
next
  case (Cons k ks)
  then show ?case
    by (simp add: keyword_step_texts keyword_texts_def unseen_append Un_assoc image_Un)
qed

lemma keywords_body_texts:
  assumes get: "py_get keyword_list ''Keyword'' (Seq []) = Inr v"
    and ok: "\<forall>k\<in>set (wrap_list_if v). inner_text_ok k"
  shows "keywords_body rp keyword_list =
           Inr (map Str (first_occurrences (keyword_texts rp (wrap_list_if v))))"
  using get keyword_loop [OF ok, of rp "[]" "{}"]
  by (simp add: keywords_body_def unseen_empty)

text \<open>
  C5. When the inner text of every mapping entry is a text (or is empty or absent), the
  extracted keyword list is the first occurrence of each case-insensitively distinct
  keyword text: it follows the input order, no two of its elements are equal
  case-insensitively, every keyword text of the input is there up to case, and each
  element has the casing of the first input text equal to it up to case.
\<close>

theorem keywords_deduplicated:
  assumes get: "py_get keyword_list ''Keyword'' (Seq []) = Inr v"
    and ok: "\<forall>k\<in>set (wrap_list_if v). inner_text_ok k"
  shows "extract_keywords rp keyword_list =
           Inr (map Str (first_occurrences (keyword_texts rp (wrap_list_if v))))
         \<and> subseq (first_occurrences (keyword_texts rp (wrap_list_if v)))
              (keyword_texts rp (wrap_list_if v))
         \<and> distinct (map lower (first_occurrences (keyword_texts rp (wrap_list_if v))))
         \<and> lower ` set (first_occurrences (keyword_texts rp (wrap_list_if v)))
             = lower ` set (keyword_texts rp (wrap_list_if v))
         \<and> (\<forall>r\<in>set (first_occurrences (keyword_texts rp (wrap_list_if v))).
               find (\<lambda>t. lower t = lower r) (keyword_texts rp (wrap_list_if v)) = Some r)"
  using keywords_body_texts [OF get ok, of rp] subseq_first_occurrences distinct_first_occurrences
    cover_first_occurrences casing_first_occurrences
  by (simp add: extract_keywords_def)

theorem keywords_deduplicated_witness:
  "list_all inner_text_ok (wrap_list_if (Seq [Str ''AI'', Str ''ai'', Str ''ML''])) \<and>
   keyword_texts plain (wrap_list_if (Seq [Str ''AI'', Str ''ai'', Str ''ML''])) = [''AI'', ''ai'', ''ML''] \<and>
   first_occurrences [''AI'', ''ai'', ''ML''] = [''AI'', ''ML''] \<and>
   extract_keywords plain (Dict [(''Keyword'', Seq [Str ''AI'', Str ''ai'', Str ''ML''])])
     = Inr [Str ''AI'', Str ''ML'']"
proof -
  have g: "py_get (Dict [(''Keyword'', Seq [Str ''AI'', Str ''ai'', Str ''ML''])]) ''Keyword'' (Seq [])
      = Inr (Seq [Str ''AI'', Str ''ai'', Str ''ML''])"
    by simp
  have ok: "\<forall>k\<in>set (wrap_list_if (Seq [Str ''AI'', Str ''ai'', Str ''ML''])). inner_text_ok k"
    by code_simp
  have t: "keyword_texts plain (wrap_list_if (Seq [Str ''AI'', Str ''ai'', Str ''ML'']))
      = [''AI'', ''ai'', ''ML'']"
    by code_simp
  have f: "first_occurrences [''AI'', ''ai'', ''ML''] = [''AI'', ''ML'']"
    by code_simp
  have e: "extract_keywords plain (Dict [(''Keyword'', Seq [Str ''AI'', Str ''ai'', Str ''ML''])])
     = Inr [Str ''AI'', Str ''ML'']"
    using keywords_deduplicated [OF g ok, of plain] by (simp only: t f) simp
  show ?thesis
    using ok t f e unfolding list_all_iff by blast
qed

text \<open>
  A keyword list whose second entry is a mapping with a sequence as inner text: the
  call of \<^verbatim>\<open>lower\<close> on it raises, the handler returns the empty list, and the first
  keyword is lost.
\<close>

theorem keywords_counterexample:
  "keyword_texts plain (wrap_list_if (Seq [Str ''AI'', Dict [(''#text'', Seq [Str ''x''])]])) = [''AI''] \<and>
   extract_keywords plain (Dict [(''Keyword'', Seq [Str ''AI'', Dict [(''#text'', Seq [Str ''x''])]])])
     = Inr []"
  by code_simp

section \<open>One mapping or a sequence of one mapping\<close>

lemma authors_single:
  assumes "py_get c1 ''Author'' (Seq []) = Inr (Dict m)"
    and "py_get c2 ''Author'' (Seq []) = Inr (Seq [Dict m])"
  shows "extract_authors rp c1 = extract_authors rp c2"
  using assms by (simp add: extract_authors_def authors_body_def)

lemma keywords_single:
  assumes "py_get c1 ''Keyword'' (Seq []) = Inr (Dict m)"
    and "py_get c2 ''Keyword'' (Seq []) = Inr (Seq [Dict m])"
  shows "extract_keywords rp c1 = extract_keywords rp c2"
  using assms by (simp add: extract_keywords_def keywords_body_def keyword_step_def)

lemma publication_types_single:
  assumes "py_get c1 ''PublicationType'' (Seq []) = Inr (Dict m)"
    and "py_get c2 ''PublicationType'' (Seq []) = Inr (Seq [Dict m])"
  shows "extract_publication_types rp c1 = extract_publication_types rp c2"
  using assms
  by (simp add: extract_publication_types_def publication_types_body_def pub_type_step_def)

lemma mesh_terms_single:
  assumes "py_get c1 ''MeshHeading'' (Seq []) = Inr (Dict m)"
    and "py_get c2 ''MeshHeading'' (Seq []) = Inr (Seq [Dict m])"
  shows "extract_mesh_terms c1 = extract_mesh_terms c2"
  using assms by (simp add: extract_mesh_terms_def mesh_terms_body_def mesh_step_def)

lemma doi_single: "extract_doi (Dict m) = extract_doi (Seq [Dict m])"
  by (simp add: extract_doi_def doi_body_def doi_step_def lower_def)

lemma abstract_single:
  assumes "py_get c1 ''AbstractText'' (Str []) = Inr (Dict m)"
    and "py_get c2 ''AbstractText'' (Str []) = Inr (Seq [Dict m])"
    and "is_str (field (Dict m) ''#text'')"
    and "\<not> (truthy (field (Dict m) ''@Label'') \<and> truthy (field (Dict m) ''#text''))"
  shows "extract_abstract rp c1 = extract_abstract rp c2"
proof -
  from assms(3) obtain s where s: "field (Dict m) ''#text'' = Str s"
    by (cases "field (Dict m) ''#text''") simp_all
  have g: "py_get (Dict m) ''#text'' (Str []) = Inr (Str s)"
    "py_get (Dict m) ''@Label'' (Str []) = Inr (field (Dict m) ''@Label'')"
    using s by (simp_all add: field_def get_or_def)
  show ?thesis
    using assms(1,2,4) s unfolding extract_abstract_def abstract_body_def abstract_step_def
    by (simp add: g py_join_def del: py_get.simps)
qed

lemma pub_date_single:
  assumes "py_get c1 ''PubDate'' (Dict []) = Inr (Dict m)"
    and "py_get c2 ''PubDate'' (Dict []) = Inr (Seq [Dict m])"
    and "\<not> truthy (field (Dict m) ''MedlineDate'')"
    and "\<not> truthy (field (Dict m) ''Year'')"
  shows "extract_pub_date c1 = extract_pub_date c2"
proof -
  have g: "py_get (Dict m) ''MedlineDate'' (Str []) = Inr (field (Dict m) ''MedlineDate'')"
    "py_get (Dict m) ''Year'' (Str []) = Inr (field (Dict m) ''Year'')"
    by (simp_all add: field_def get_or_def)
  show ?thesis
    using assms unfolding extract_pub_date_def pub_date_body_def
    by (simp add: g del: py_get.simps) (simp add: py_bind_def split: sum.split)
qed

text \<open>
  C2. For the authors, keywords, publication types, MeSH terms and DOI extractors,
  a field holding the single mapping \<open>m\<close> and a field holding the sequence of the one
  element \<open>m\<close> give the same extracted value. The abstract extractor does so when the
  inner text of \<open>m\<close> is a text and \<open>m\<close> does not carry both a label and a text; the
  publication date extractor when \<open>m\<close> has neither a composed date nor a year.
\<close>

theorem cardinality_invariance:
  "(py_get c1 ''Author'' (Seq []) = Inr (Dict m) \<and> py_get c2 ''Author'' (Seq []) = Inr (Seq [Dict m])
      \<longrightarrow> extract_authors rp c1 = extract_authors rp c2) \<and>
   (py_get c1 ''Keyword'' (Seq []) = Inr (Dict m) \<and> py_get c2 ''Keyword'' (Seq []) = Inr (Seq [Dict m])
      \<longrightarrow> extract_keywords rp c1 = extract_keywords rp c2) \<and>
   (py_get c1 ''PublicationType'' (Seq []) = Inr (Dict m)
      \<and> py_get c2 ''PublicationType'' (Seq []) = Inr (Seq [Dict m])
      \<longrightarrow> extract_publication_types rp c1 = extract_publication_types rp c2) \<and>
   (py_get c1 ''MeshHeading'' (Seq []) = Inr (Dict m)
      \<and> py_get c2 ''MeshHeading'' (Seq []) = Inr (Seq [Dict m])
      \<longrightarrow> extract_mesh_terms c1 = extract_mesh_terms c2) \<and>
   extract_doi (Dict m) = extract_doi (Seq [Dict m]) \<and>
   (py_get c1 ''AbstractText'' (Str []) = Inr (Dict m)
      \<and> py_get c2 ''AbstractText'' (Str []) = Inr (Seq [Dict m])
      \<and> is_str (field (Dict m) ''#text'')
      \<and> \<not> (truthy (field (Dict m) ''@Label'') \<and> truthy (field (Dict m) ''#text''))
      \<longrightarrow> extract_abstract rp c1 = extract_abstract rp c2) \<and>
   (py_get c1 ''PubDate'' (Dict []) = Inr (Dict m)
      \<and> py_get c2 ''PubDate'' (Dict []) = Inr (Seq [Dict m])
      \<and> \<not> truthy (field (Dict m) ''MedlineDate'') \<and> \<not> truthy (field (Dict m) ''Year'')
      \<longrightarrow> extract_pub_date c1 = extract_pub_date c2)"
  using authors_single [of c1 m c2 rp] keywords_single [of c1 m c2 rp]
    publication_types_single [of c1 m c2 rp] mesh_terms_single [of c1 m c2]
    doi_single [of m] abstract_single [of c1 m c2 rp] pub_date_single [of c1 m c2]
  by blast

theorem cardinality_invariance_witness:
  "extract_authors plain (Dict [(''Author'', Dict [(''LastName'', Str ''Smith'')])]) = Inr ''Smith'' \<and>
   extract_authors plain (Dict [(''Author'', Seq [Dict [(''LastName'', Str ''Smith'')]])]) = Inr ''Smith'' \<and>
   extract_keywords plain (Dict [(''Keyword'', Dict [(''#text'', Str ''AI'')])]) = Inr [Str ''AI''] \<and>
   extract_keywords plain (Dict [(''Keyword'', Seq [Dict [(''#text'', Str ''AI'')]])]) = Inr [Str ''AI''] \<and>
   extract_publication_types plain (Dict [(''PublicationType'', Dict [(''#text'', Str ''Review'')])])
     = Inr [Str ''Review''] \<and>
   extract_publication_types plain (Dict [(''PublicationType'', Seq [Dict [(''#text'', Str ''Review'')]])])
     = Inr [Str ''Review''] \<and>
   extract_mesh_terms (Dict [(''MeshHeading'', Dict [(''DescriptorName'', Dict [(''#text'', Str ''Humans'')])])])
     = Inr [Str ''Humans''] \<and>
   extract_mesh_terms
     (Dict [(''MeshHeading'', Seq [Dict [(''DescriptorName'', Dict [(''#text'', Str ''Humans'')])]])])
     = Inr [Str ''Humans''] \<and>
   extract_doi (Dict [(''@EIdType'', Str ''doi''), (''#text'', Str ''10.1000/x'')]) = Inr (Str ''10.1000/x'') \<and>
   extract_doi (Seq [Dict [(''@EIdType'', Str ''doi''), (''#text'', Str ''10.1000/x'')]])
     = Inr (Str ''10.1000/x'') \<and>
   extract_abstract plain (Dict [(''AbstractText'', Dict [(''#text'', Str ''Text.'')])]) = Inr (Str ''Text.'') \<and>
   extract_abstract plain (Dict [(''AbstractText'', Seq [Dict [(''#text'', Str ''Text.'')]])])
     = Inr (Str ''Text.'') \<and>
   extract_pub_date (Dict [(''PubDate'', Dict [(''Season'', Str ''Spring'')])])
     = Inr (Str ''Date not available'') \<and>
   extract_pub_date (Dict [(''PubDate'', Seq [Dict [(''Season'', Str ''Spring'')]])])
     = Inr (Str ''Date not available'')"
proof -
  have a1: "extract_authors plain (Dict [(''Author'', Dict [(''LastName'', Str ''Smith'')])]) = Inr ''Smith''"
    by code_simp
  have a2: "extract_authors plain (Dict [(''Author'', Seq [Dict [(''LastName'', Str ''Smith'')]])])
      = Inr ''Smith''"
    using a1 cardinality_invariance [of "Dict [(''Author'', Dict [(''LastName'', Str ''Smith'')])]"
        "[(''LastName'', Str ''Smith'')]" "Dict [(''Author'', Seq [Dict [(''LastName'', Str ''Smith'')]])]"
        plain]
    by simp
  have k1: "extract_keywords plain (Dict [(''Keyword'', Dict [(''#text'', Str ''AI'')])]) = Inr [Str ''AI'']"
    by code_simp
  have k2: "extract_keywords plain (Dict [(''Keyword'', Seq [Dict [(''#text'', Str ''AI'')]])])
      = Inr [Str ''AI'']"
    using k1 cardinality_invariance [of "Dict [(''Keyword'', Dict [(''#text'', Str ''AI'')])]"
        "[(''#text'', Str ''AI'')]" "Dict [(''Keyword'', Seq [Dict [(''#text'', Str ''AI'')]])]" plain]
    by simp
  have p1: "extract_publication_types plain (Dict [(''PublicationType'', Dict [(''#text'', Str ''Review'')])])
      = Inr [Str ''Review'']"
    by code_simp
  have p2: "extract_publication_types plain
        (Dict [(''PublicationType'', Seq [Dict [(''#text'', Str ''Review'')]])]) = Inr [Str ''Review'']"
    using p1 cardinality_invariance [of "Dict [(''PublicationType'', Dict [(''#text'', Str ''Review'')])]"
        "[(''#text'', Str ''Review'')]"
        "Dict [(''PublicationType'', Seq [Dict [(''#text'', Str ''Review'')]])]" plain]
    by simp
  have m1: "extract_mesh_terms
        (Dict [(''MeshHeading'', Dict [(''DescriptorName'', Dict [(''#text'', Str ''Humans'')])])])
      = Inr [Str ''Humans'']"
    by code_simp
  have m2: "extract_mesh_terms
        (Dict [(''MeshHeading'', Seq [Dict [(''DescriptorName'', Dict [(''#text'', Str ''Humans'')])]])])
      = Inr [Str ''Humans'']"
    using m1 cardinality_invariance
        [of "Dict [(''MeshHeading'', Dict [(''DescriptorName'', Dict [(''#text'', Str ''Humans'')])])]"
          "[(''DescriptorName'', Dict [(''#text'', Str ''Humans'')])]"
          "Dict [(''MeshHeading'', Seq [Dict [(''DescriptorName'', Dict [(''#text'', Str ''Humans'')])]])]"
          plain]
    by simp
  have d1: "extract_doi (Dict [(''@EIdType'', Str ''doi''), (''#text'', Str ''10.1000/x'')])
      = Inr (Str ''10.1000/x'')"
    by code_simp
  have d2: "extract_doi (Seq [Dict [(''@EIdType'', Str ''doi''), (''#text'', Str ''10.1000/x'')]])
      = Inr (Str ''10.1000/x'')"
    using d1 cardinality_invariance [of PyNone "[(''@EIdType'', Str ''doi''), (''#text'', Str ''10.1000/x'')]"
        PyNone plain]
    by simp
  have b1: "extract_abstract plain (Dict [(''AbstractText'', Dict [(''#text'', Str ''Text.'')])])
      = Inr (Str ''Text.'')"
    by code_simp
  have b2: "extract_abstract plain (Dict [(''AbstractText'', Seq [Dict [(''#text'', Str ''Text.'')]])])
      = Inr (Str ''Text.'')"
    using b1 cardinality_invariance [of "Dict [(''AbstractText'', Dict [(''#text'', Str ''Text.'')])]"
        "[(''#text'', Str ''Text.'')]" "Dict [(''AbstractText'', Seq [Dict [(''#text'', Str ''Text.'')]])]"
        plain]
    by (simp add: field_def get_or_def)
  have t1: "extract_pub_date (Dict [(''PubDate'', Dict [(''Season'', Str ''Spring'')])])
      = Inr (Str ''Date not available'')"
    by code_simp
  have t2: "extract_pub_date (Dict [(''PubDate'', Seq [Dict [(''Season'', Str ''Spring'')]])])
      = Inr (Str ''Date not available'')"
    using t1 cardinality_invariance [of "Dict [(''PubDate'', Dict [(''Season'', Str ''Spring'')])]"
        "[(''Season'', Str ''Spring'')]" "Dict [(''PubDate'', Seq [Dict [(''Season'', Str ''Spring'')]])]"
        plain]
    by (simp add: field_def get_or_def)
  show ?thesis
    using a1 a2 k1 k2 p1 p2 m1 m2 d1 d2 b1 b2 t1 t2 by blast
qed

text \<open>
  A labelled abstract part loses its label as a single mapping and keeps it as a
  sequence of one; a publication date is read from a single mapping and not from a
  sequence of one.
\<close>

theorem cardinality_counterexample:
  "extract_abstract plain
     (Dict [(''AbstractText'', Dict [(''@Label'', Str ''AIM''), (''#text'', Str ''To test.'')])])
     = Inr (Str ''To test.'') \<and>
   extract_abstract plain
     (Dict [(''AbstractText'', Seq [Dict [(''@Label'', Str ''AIM''), (''#text'', Str ''To test.'')]])])
     = Inr (Str ''**AIM:** To test.'') \<and>
   extract_pub_date (Dict [(''PubDate'', Dict [(''Year'', Str ''2020'')])]) = Inr (Str ''2020'') \<and>
   extract_pub_date (Dict [(''PubDate'', Seq [Dict [(''Year'', Str ''2020'')]])])
     = Inr (Str ''Date not available'')"
  by code_simp

section \<open>Related identifiers\<close>

lemma py_bind_Inr: "py_bind m f = Inr y \<Longrightarrow> \<exists>x. m = Inr x \<and> f x = Inr y"
  by (cases m) simp_all

lemma py_item_in: "py_item x k = Inr v \<Longrightarrow> py_in k x = Inr True"
  by (cases x) (auto split: option.splits dest: map_of_SomeD intro: rev_image_eqI)

lemma link_step_excludes:
  assumes "link_step pmid link ids = Inr ids'" and "Str pmid \<notin> set ids"
  shows "Str pmid \<notin> set ids'"
proof -
  from assms(1) obtain i where i: "py_item link ''Id'' = Inr i"
    unfolding link_step_def by (blast dest: py_bind_Inr)
  with assms show ?thesis
    by (auto simp: link_step_def split: if_splits)
qed

lemma link_loop_excludes:
  assumes "for_each (link_step pmid) links ids = Inr ids'" and "Str pmid \<notin> set ids"
  shows "Str pmid \<notin> set ids'"
  using assms
proof (induction links arbitrary: ids)
  case Nil
  then show ?case by simp
next
  case (Cons l links)
  then show ?case
    by (auto split: sum.splits dest: link_step_excludes)
qed

lemma link_loop_ids:
  assumes "map (\<lambda>l. py_item l ''Id'') links = map Inr is"
  shows "for_each (link_step pmid) links ids = Inr (ids @ filter (\<lambda>i. i \<noteq> Str pmid) is)"
  using assms
proof (induction links arbitrary: "is" ids)
  case Nil
  then show ?case by simp
next
  case (Cons l links)
  then obtain i rest where "is": "is = i # rest" and i: "py_item l ''Id'' = Inr i"
    and rest: "map (\<lambda>l. py_item l ''Id'') links = map Inr rest"
    by (cases "is") auto
  from Cons.IH [OF rest] i show ?case
    by (simp add: "is" link_step_def)
qed

lemma similar_pmids_cases:
  assumes "similar_pmids link_result pmid = Inr ids"
  shows "ids = [] \<or> (\<exists>links. for_each (link_step pmid) links [] = Inr ids)"
proof -
  from assms obtain c1 c2 where
    r: "(if c2 then
           py_bind (py_item link_result ''eLinkResult'') (\<lambda>result.
           py_bind (py_item result ''LinkSet'') (\<lambda>linkset0.
             let linkset = first_or_empty linkset0 in
             py_bind (py_in ''LinkSetDb'' linkset) (\<lambda>has_db.
               if has_db then
                 py_bind (py_item linkset ''LinkSetDb'') (\<lambda>linksetdb0.
                   let linksetdb = first_or_empty linksetdb0 in
                   py_bind (py_in ''Link'' linksetdb) (\<lambda>has_link.
                     if has_link then
                       py_bind (py_item linksetdb ''Link'') (\<lambda>links.
                         if is_list links then for_each (link_step pmid) (wrap_list links) []
                         else link_step pmid links [])
                     else Inr []))
               else Inr [])))
         else Inr []) = Inr ids"
    unfolding similar_pmids_def by (blast dest: py_bind_Inr)
  show ?thesis
  proof (cases c2)
    case False
    with r show ?thesis by simp
  next
    case True
    with r obtain result linkset0 has_db where
      d: "(if has_db then
             py_bind (py_item (first_or_empty linkset0) ''LinkSetDb'') (\<lambda>linksetdb0.
               let linksetdb = first_or_empty linksetdb0 in
               py_bind (py_in ''Link'' linksetdb) (\<lambda>has_link.
                 if has_link then
                   py_bind (py_item linksetdb ''Link'') (\<lambda>links.
                     if is_list links then for_each (link_step pmid) (wrap_list links) []
                     else link_step pmid links [])
                 else Inr []))
           else Inr []) = Inr ids"
      by (auto simp: Let_def dest!: py_bind_Inr)
    show ?thesis
    proof (cases has_db)
      case False
      with d show ?thesis by simp
    next
      case True
      with d obtain linksetdb0 has_link where
        l: "(if has_link then
               py_bind (py_item (first_or_empty linksetdb0) ''Link'') (\<lambda>links.
                 if is_list links then for_each (link_step pmid) (wrap_list links) []
                 else link_step pmid links [])
             else Inr []) = Inr ids"
        by (auto simp: Let_def dest!: py_bind_Inr)
      show ?thesis
      proof (cases has_link)
        case False
        with l show ?thesis by simp
      next
        case True
        with l obtain links where
          h: "(if is_list links then for_each (link_step pmid) (wrap_list links) []
               else link_step pmid links []) = Inr ids"
          by (auto dest!: py_bind_Inr)
        have "for_each (link_step pmid) (if is_list links then wrap_list links else [links]) []
            = Inr ids"
          using h by (cases "is_list links") simp_all
        then show ?thesis by blast
      qed
    qed
  qed
qed

text \<open>
  C7. Whenever \<^verbatim>\<open>_get_similar_articles\<close> of \<^verbatim>\<open>server.py\<close> resolves a sequence of linked
  identifiers, the origin identifier is not in it; and the sequence is the identifiers
  of the link entries it reads, in their input order, without those equal to the
  origin identifier, wherever and however often they occur.
\<close>

theorem similar_pmids_exclude_origin:
  "(\<forall>ids. similar_pmids link_result pmid = Inr ids \<longrightarrow> Str pmid \<notin> set ids) \<and>
   (py_item link_result ''eLinkResult'' = Inr result
      \<and> py_item result ''LinkSet'' = Inr linkset0
      \<and> py_item (first_or_empty linkset0) ''LinkSetDb'' = Inr linksetdb0
      \<and> py_item (first_or_empty linksetdb0) ''Link'' = Inr links
      \<and> map (\<lambda>l. py_item l ''Id'') (wrap_list links) = map Inr link_ids
      \<longrightarrow> similar_pmids link_result pmid = Inr (filter (\<lambda>i. i \<noteq> Str pmid) link_ids))"
proof -
  have excl: "Str pmid \<notin> set ids" if "similar_pmids link_result pmid = Inr ids" for ids
    using similar_pmids_cases [OF that] link_loop_excludes [of pmid _ "[]" ids] by auto
  have order: "similar_pmids link_result pmid = Inr (filter (\<lambda>i. i \<noteq> Str pmid) link_ids)"
    if r: "py_item link_result ''eLinkResult'' = Inr result"
      and s: "py_item result ''LinkSet'' = Inr linkset0"
      and d: "py_item (first_or_empty linkset0) ''LinkSetDb'' = Inr linksetdb0"
      and l: "py_item (first_or_empty linksetdb0) ''Link'' = Inr links"
      and i: "map (\<lambda>l. py_item l ''Id'') (wrap_list links) = map Inr link_ids"
  proof -
    have loop: "for_each (link_step pmid) (wrap_list links) []
        = Inr (filter (\<lambda>i. i \<noteq> Str pmid) link_ids)"
      using link_loop_ids [OF i, of pmid "[]"] by simp
    have single: "link_step pmid links [] = Inr (filter (\<lambda>i. i \<noteq> Str pmid) link_ids)"
      if "\<not> is_list links"
    proof -
      from that have "wrap_list links = [links]" by (cases links) simp_all
      with loop show ?thesis by (simp split: sum.splits)
    qed
    show ?thesis
      unfolding similar_pmids_def
      using single loop
      by (simp add: r s d l py_item_in [OF r] py_item_in [OF s] py_item_in [OF d] py_item_in [OF l]
          Let_def)
  qed
  from excl order show ?thesis by blast
qed

theorem similar_pmids_exclude_origin_witness:
  "similar_pmids
     (Dict [(''eLinkResult'', Dict [(''LinkSet'', Dict [(''DbFrom'', Str ''pubmed''),
        (''LinkSetDb'', Dict [(''DbTo'', Str ''pubmed''), (''LinkName'', Str ''pubmed_pubmed''),
           (''Link'', Seq [Dict [(''Id'', Str ''1'')], Dict [(''Id'', Str ''5'')],
                           Dict [(''Id'', Str ''1'')], Dict [(''Id'', Str ''3'')]])])])])])
     ''1'' = Inr [Str ''5'', Str ''3''] \<and>
   Str ''1'' \<notin> set [Str ''5'', Str ''3'']"
proof -
  define links where "links = Seq [Dict [(''Id'', Str ''1'')], Dict [(''Id'', Str ''5'')],
                           Dict [(''Id'', Str ''1'')], Dict [(''Id'', Str ''3'')]]"
  define db where "db = Dict [(''DbTo'', Str ''pubmed''), (''LinkName'', Str ''pubmed_pubmed''),
           (''Link'', links)]"
  define linkset where "linkset = Dict [(''DbFrom'', Str ''pubmed''), (''LinkSetDb'', db)]"
  define result where "result = Dict [(''LinkSet'', linkset)]"
  define lr where "lr = Dict [(''eLinkResult'', result)]"
  have h: "py_item lr ''eLinkResult'' = Inr result
      \<and> py_item result ''LinkSet'' = Inr linkset
      \<and> py_item (first_or_empty linkset) ''LinkSetDb'' = Inr db
      \<and> py_item (first_or_empty db) ''Link'' = Inr links
      \<and> map (\<lambda>l. py_item l ''Id'') (wrap_list links)
          = map Inr [Str ''1'', Str ''5'', Str ''1'', Str ''3'']"
    by (simp add: lr_def result_def linkset_def db_def links_def)
  have e: "similar_pmids lr ''1'' = Inr [Str ''5'', Str ''3'']"
    using h similar_pmids_exclude_origin [of lr "''1''" result linkset db links
        "[Str ''1'', Str ''5'', Str ''1'', Str ''3'']"]
    by simp
  have n: "Str ''1'' \<notin> set [Str ''5'', Str ''3'']"
    using e similar_pmids_exclude_origin [of lr "''1''" result linkset db links
        "[Str ''1'', Str ''5'', Str ''1'', Str ''3'']"]
    by blast
  show ?thesis
    using e n unfolding lr_def result_def linkset_def db_def links_def by blast
qed







section \<open>Batches\<close>

lemma py_bind_InrE:
  assumes "py_bind m f = Inr y"
  obtains x where "m = Inr x" and "f x = Inr y"
  using assms by (cases m) simp_all

lemma single_article_body_truthy:
  assumes "single_article_body rp d = Inr a"
  shows "truthy a"
  using assms unfolding single_article_body_def
  by (elim py_bind_InrE) auto

lemma parse_single_article_value:
  "parse_single_article rp d =
     Inr (case single_article_body rp d of Inl e \<Rightarrow> PyNone | Inr a \<Rightarrow> a)"
  by (simp add: parse_single_article_def py_except_def split: sum.split)

lemma articles_loop_publications:
  "articles_loop rp docs articles = (articles @ publications rp docs, None)"
proof (induction docs arbitrary: articles)
  case Nil
  show ?case by (simp add: publications_def)
next
  case (Cons d docs)
  show ?case
  proof (cases "single_article_body rp d")
    case (Inl e)
    then show ?thesis
      using Cons [of articles] by (simp add: parse_single_article_value publications_def)
  next
    case (Inr a)
    then show ?thesis
      using Cons [of "articles @ [a]"] single_article_body_truthy [OF Inr]
      by (simp add: parse_single_article_value publications_def)
  qed
qed

text \<open>
  C8. \<^verbatim>\<open>_parse_articles\<close> returns a list on every input. When the article set holds
  documents, the list is the publications of the documents whose build does not raise,
  in input order: of three documents of which the second fails, the publications of
  the first and the third; and the empty list when every document fails.
\<close>

theorem parse_articles_drops_failures:
  "(\<exists>articles. parse_articles rp xml_data = Inr articles) \<and>
   (py_get xml_data ''PubmedArticleSet'' (Dict []) = Inr pubmed_data \<and> truthy pubmed_data
      \<and> py_get pubmed_data ''PubmedArticle'' (Seq []) = Inr docs
      \<longrightarrow> parse_articles rp xml_data = Inr (publications rp (wrap_list docs))) \<and>
   (py_get xml_data ''PubmedArticleSet'' (Dict []) = Inr pubmed_data \<and> truthy pubmed_data
      \<and> py_get pubmed_data ''PubmedArticle'' (Seq []) = Inr (Seq [d1, d2, d3])
      \<and> single_article_body rp d1 = Inr a1 \<and> single_article_body rp d2 = Inl e
      \<and> single_article_body rp d3 = Inr a3
      \<longrightarrow> parse_articles rp xml_data = Inr [a1, a3]) \<and>
   (py_get xml_data ''PubmedArticleSet'' (Dict []) = Inr pubmed_data \<and> truthy pubmed_data
      \<and> py_get pubmed_data ''PubmedArticle'' (Seq []) = Inr docs
      \<and> list_all (\<lambda>d. \<exists>e. single_article_body rp d = Inl e) (wrap_list docs)
      \<longrightarrow> parse_articles rp xml_data = Inr [])"
proof -
  have total: "\<exists>articles. parse_articles rp xml_data = Inr articles"
    by (simp add: parse_articles_def split: sum.split)
  have kept: "parse_articles rp xml_data = Inr (publications rp (wrap_list ds))"
    if "py_get xml_data ''PubmedArticleSet'' (Dict []) = Inr pubmed_data" "truthy pubmed_data"
      "py_get pubmed_data ''PubmedArticle'' (Seq []) = Inr ds" for ds
    using that by (simp add: parse_articles_def articles_loop_publications)
  have three: "publications rp (wrap_list (Seq [d1, d2, d3])) = [a1, a3]"
    if "single_article_body rp d1 = Inr a1" "single_article_body rp d2 = Inl e"
      "single_article_body rp d3 = Inr a3"
    using that by (simp add: publications_def)
  have none: "publications rp ds = []"
    if "list_all (\<lambda>d. \<exists>e. single_article_body rp d = Inl e) ds" for ds
    using that by (induction ds) (auto simp: publications_def)
  have c2: "py_get xml_data ''PubmedArticleSet'' (Dict []) = Inr pubmed_data \<and> truthy pubmed_data
      \<and> py_get pubmed_data ''PubmedArticle'' (Seq []) = Inr docs
      \<longrightarrow> parse_articles rp xml_data = Inr (publications rp (wrap_list docs))"
    using kept [of docs] by blast
  have c3: "py_get xml_data ''PubmedArticleSet'' (Dict []) = Inr pubmed_data \<and> truthy pubmed_data
      \<and> py_get pubmed_data ''PubmedArticle'' (Seq []) = Inr (Seq [d1, d2, d3])
      \<and> single_article_body rp d1 = Inr a1 \<and> single_article_body rp d2 = Inl e
      \<and> single_article_body rp d3 = Inr a3
      \<longrightarrow> parse_articles rp xml_data = Inr [a1, a3]"
    using kept [of "Seq [d1, d2, d3]"] three by presburger
  have c4: "py_get xml_data ''PubmedArticleSet'' (Dict []) = Inr pubmed_data \<and> truthy pubmed_data
      \<and> py_get pubmed_data ''PubmedArticle'' (Seq []) = Inr docs
      \<and> list_all (\<lambda>d. \<exists>e. single_article_body rp d = Inl e) (wrap_list docs)
      \<longrightarrow> parse_articles rp xml_data = Inr []"
    using kept [of docs] none [of "wrap_list docs"] by presburger
  show ?thesis
    using total c2 c3 c4 by (intro conjI)
qed

theorem parse_articles_drops_failures_witness:
  "single_article_body plain (Dict [(''MedlineCitation'', Seq [Str ''x''])]) = Inl AttributeError \<and>
   parse_articles plain
     (Dict [(''PubmedArticleSet'', Dict [(''PubmedArticle'',
        Seq [Dict [(''MedlineCitation'', Dict [(''PMID'', Str ''7'')])],
             Dict [(''MedlineCitation'', Seq [Str ''x''])],
             Dict [(''MedlineCitation'', Dict [(''PMID'', Str ''9'')])]])])])
     = Inr [Dict [(''pmid'', Str ''7''), (''title'', Str ''No title available''),
                  (''authors'', Str ''Authors not available''), (''journal'', Str ''Unknown journal''),
                  (''journal_iso'', Str []), (''pub_date'', Str ''Date not available''),
                  (''abstract'', Str []), (''doi'', Str []), (''keywords'', Seq []),
                  (''publication_types'', Seq []), (''mesh_terms'', Seq [])],
            Dict [(''pmid'', Str ''9''), (''title'', Str ''No title available''),
                  (''authors'', Str ''Authors not available''), (''journal'', Str ''Unknown journal''),
                  (''journal_iso'', Str []), (''pub_date'', Str ''Date not available''),
                  (''abstract'', Str []), (''doi'', Str []), (''keywords'', Seq []),
                  (''publication_types'', Seq []), (''mesh_terms'', Seq [])]] \<and>
   parse_articles plain
     (Dict [(''PubmedArticleSet'', Dict [(''PubmedArticle'', Dict [(''MedlineCitation'', Seq [Str ''x''])])])])
     = Inr []"
proof -
  define d1 where "d1 = Dict [(''MedlineCitation'', Dict [(''PMID'', Str ''7'')])]"
  define d2 where "d2 = Dict [(''MedlineCitation'', Seq [Str ''x''])]"
  define d3 where "d3 = Dict [(''MedlineCitation'', Dict [(''PMID'', Str ''9'')])]"
  define a1 where "a1 = Dict [(''pmid'', Str ''7''), (''title'', Str ''No title available''),
                  (''authors'', Str ''Authors not available''), (''journal'', Str ''Unknown journal''),
                  (''journal_iso'', Str []), (''pub_date'', Str ''Date not available''),
                  (''abstract'', Str []), (''doi'', Str []), (''keywords'', Seq []),
                  (''publication_types'', Seq []), (''mesh_terms'', Seq [])]"
  define a3 where "a3 = Dict [(''pmid'', Str ''9''), (''title'', Str ''No title available''),
                  (''authors'', Str ''Authors not available''), (''journal'', Str ''Unknown journal''),
                  (''journal_iso'', Str []), (''pub_date'', Str ''Date not available''),
                  (''abstract'', Str []), (''doi'', Str []), (''keywords'', Seq []),
                  (''publication_types'', Seq []), (''mesh_terms'', Seq [])]"
  have b1: "single_article_body plain d1 = Inr a1"
    unfolding d1_def a1_def by code_simp
  have b2: "single_article_body plain d2 = Inl AttributeError"
    unfolding d2_def by code_simp
  have b3: "single_article_body plain d3 = Inr a3"
    unfolding d3_def a3_def by code_simp
  define s1 where "s1 = Dict [(''PubmedArticle'', Seq [d1, d2, d3])]"
  define s2 where "s2 = Dict [(''PubmedArticle'', d2)]"
  have h1: "py_get (Dict [(''PubmedArticleSet'', s1)]) ''PubmedArticleSet'' (Dict []) = Inr s1
      \<and> truthy s1 \<and> py_get s1 ''PubmedArticle'' (Seq []) = Inr (Seq [d1, d2, d3])"
    by (simp add: s1_def)
  have w: "wrap_list d2 = [d2]"
    by (simp add: d2_def)
  have h2: "py_get (Dict [(''PubmedArticleSet'', s2)]) ''PubmedArticleSet'' (Dict []) = Inr s2
      \<and> truthy s2 \<and> py_get s2 ''PubmedArticle'' (Seq []) = Inr d2
      \<and> list_all (\<lambda>d. \<exists>e. single_article_body plain d = Inl e) (wrap_list d2)"
    using b2 by (simp add: s2_def w)
  have e1: "parse_articles plain (Dict [(''PubmedArticleSet'', s1)]) = Inr [a1, a3]"
    using h1 b1 b2 b3
      parse_articles_drops_failures [of plain "Dict [(''PubmedArticleSet'', s1)]" s1
        "Seq [d1, d2, d3]" d1 d2 d3 a1 AttributeError a3]
    by blast
  have e2: "parse_articles plain (Dict [(''PubmedArticleSet'', s2)]) = Inr []"
    using h2
      parse_articles_drops_failures [of plain "Dict [(''PubmedArticleSet'', s2)]" s2 d2
        d1 d2 d3 a1 AttributeError a3]
    by blast
  show ?thesis
    using b2 e1 e2 unfolding s1_def s2_def d1_def d2_def d3_def a1_def a3_def
    by (intro conjI)
qed

section \<open>Detail view\<close>

lemma truthy_default: "truthy (get_or a k (Seq [])) = truthy (field a k)"
  by (cases a) (simp_all add: field_def get_or_def split: option.split)

lemma str_items_strings: "list_all is_str xs \<Longrightarrow> \<exists>ss. str_items xs = Inr ss"
proof (induction xs)
  case Nil
  show ?case by simp
next
  case (Cons x xs)
  then obtain s ss where "x = Str s" "str_items xs = Inr ss"
    by (cases x) auto
  then show ?case by simp
qed

lemma py_join_any_strings:
  assumes "string_list v"
  shows "\<exists>j. py_join_any sep v = Inr j"
proof -
  from assms obtain xs where v: "v = Seq xs" and xs: "list_all is_str xs"
    by (cases v) (simp_all add: string_list_def)
  from str_items_strings [OF xs] obtain ss where "str_items xs = Inr ss" by blast
  with v show ?thesis
    by (simp add: py_join_any_def py_join_def)
qed

lemma details_empty:
  assumes "optional_empty article"
  shows "details rp article = Inr (mandatory_items rp article)"
proof -
  from assms have d: "is_dict article"
    and e: "\<not> truthy (field article ''journal_iso'')" "\<not> truthy (field article ''doi'')"
      "\<not> truthy (field article ''publication_types'')" "\<not> truthy (field article ''abstract'')"
      "\<not> truthy (field article ''keywords'')" "\<not> truthy (field article ''mesh_terms'')"
    by (simp_all add: optional_empty_def)
  have f: "\<not> truthy (get_or article ''journal_iso'' (Str []))" "\<not> truthy (get_or article ''doi'' (Str []))"
      "\<not> truthy (get_or article ''abstract'' (Str []))"
      "\<not> truthy (get_or article ''publication_types'' (Seq []))"
      "\<not> truthy (get_or article ''keywords'' (Seq []))"
      "\<not> truthy (get_or article ''mesh_terms'' (Seq []))"
    using e by (simp_all add: truthy_default) (simp_all add: field_def)
  show ?thesis
    unfolding details_def
    by (simp add: py_get_Dict [OF d] f details_head_def links_section_def mandatory_items_def Let_def)
qed

lemma details_total:
  assumes "publication article"
  shows "\<exists>ds. details rp article = Inr ds"
proof -
  from assms have d: "is_dict article"
    and k: "string_list (get_or article ''keywords'' (Seq []))"
    and p: "string_list (get_or article ''publication_types'' (Seq []))"
    and m: "string_list (get_or article ''mesh_terms'' (Seq []))"
    by (simp_all add: publication_def)
  from py_join_any_strings [OF k] obtain jk
    where jk: "py_join_any '', '' (get_or article ''keywords'' (Seq [])) = Inr jk" by blast
  from py_join_any_strings [OF p] obtain jp
    where jp: "py_join_any '', '' (get_or article ''publication_types'' (Seq [])) = Inr jp" by blast
  from py_join_any_strings [OF m] obtain jm
    where jm: "py_join_any '', '' (get_or article ''mesh_terms'' (Seq [])) = Inr jm" by blast
  show ?thesis
    unfolding details_def
    by (simp add: py_get_Dict [OF d] jk jp jm)
qed

lemma mandatory_items_not_optional: "no_optional_item (mandatory_items rp article)"
  by (simp add: no_optional_item_def mandatory_items_def optional_headers_def Let_def
      nl_def bullet_def page_sign_def link_sign_def clipboard_sign_def magnifier_sign_def
      chart_sign_def label_sign_def microscope_sign_def)

text \<open>
  C9. The detail rendering returns a string for every publication record. When the
  publication types, abstract, keywords, MeSH terms, journal ISO abbreviation and DOI
  of a publication are empty, the rendering is made of the mandatory items only (title
  block, authors, journal, date, PMID and the links block), joined by newlines, and
  none of these items begins an optional section.
\<close>

theorem details_omit_empty_sections:
  "(publication article \<longrightarrow> (\<exists>s. format_article_details rp article = Inr s)) \<and>
   (optional_empty article \<longrightarrow>
      details rp article = Inr (mandatory_items rp article)
      \<and> format_article_details rp article = Inr (join_str nl (mandatory_items rp article))
      \<and> no_optional_item (mandatory_items rp article))"
proof -
  have t: "\<exists>s. format_article_details rp article = Inr s" if "publication article"
    using details_total [OF that, of rp] by (auto simp: format_article_details_def)
  have e: "details rp article = Inr (mandatory_items rp article)
      \<and> format_article_details rp article = Inr (join_str nl (mandatory_items rp article))
      \<and> no_optional_item (mandatory_items rp article)"
    if "optional_empty article"
    using details_empty [OF that, of rp] mandatory_items_not_optional [of rp article]
    by (simp add: format_article_details_def)
  from t e show ?thesis by blast
qed

theorem details_omit_empty_sections_witness:
  "publication (Dict [(''pmid'', Str ''7''), (''title'', Str ''A title''), (''authors'', Str ''Smith John''),
       (''journal'', Str ''A journal''), (''journal_iso'', Str []), (''pub_date'', Str ''2020 Jan''),
       (''abstract'', Str []), (''doi'', Str []), (''keywords'', Seq []),
       (''publication_types'', Seq []), (''mesh_terms'', Seq [])]) \<and>
   optional_empty (Dict [(''pmid'', Str ''7''), (''title'', Str ''A title''), (''authors'', Str ''Smith John''),
       (''journal'', Str ''A journal''), (''journal_iso'', Str []), (''pub_date'', Str ''2020 Jan''),
       (''abstract'', Str []), (''doi'', Str []), (''keywords'', Seq []),
       (''publication_types'', Seq []), (''mesh_terms'', Seq [])]) \<and>
   details plain (Dict [(''pmid'', Str ''7''), (''title'', Str ''A title''), (''authors'', Str ''Smith John''),
       (''journal'', Str ''A journal''), (''journal_iso'', Str []), (''pub_date'', Str ''2020 Jan''),
       (''abstract'', Str []), (''doi'', Str []), (''keywords'', Seq []),
       (''publication_types'', Seq []), (''mesh_terms'', Seq [])])
     = Inr [''# '' @ page_sign @ '' Publication Details - PMID 7'' @ nl,
            ''## A title'' @ nl,
            ''**Authors:** Smith John'' @ nl,
            ''**Journal:** A journal'',
            ''**Published:** 2020 Jan'',
            ''**PMID:** 7'',
            nl @ ''## '' @ link_sign @ '' Quick Access Links'',
            bullet @ '' ['' @ page_sign
              @ '' **View on PubMed**](https://pubmed.ncbi.nlm.nih.gov/7/) - Official PubMed page'',
            bullet @ '' ['' @ magnifier_sign
              @ '' **Search Full Text**](https://pubmed.ncbi.nlm.nih.gov/7/) - Look for free full text'',
            bullet @ '' ['' @ chart_sign
              @ '' **Citation Analysis**](https://scholar.google.com/scholar?q=7) - Google Scholar citations'',
            bullet @ '' ['' @ link_sign
              @ '' **Find Similar**](https://pubmed.ncbi.nlm.nih.gov/sites/pubmed/?linkname=pubmed_pubmed&from_uid=7) - Related articles''] \<and>
   (\<exists>s. format_article_details plain
      (Dict [(''pmid'', Str ''7''), (''title'', Str ''A title''), (''authors'', Str ''Smith John''),
       (''journal'', Str ''A journal''), (''journal_iso'', Str []), (''pub_date'', Str ''2020 Jan''),
       (''abstract'', Str []), (''doi'', Str []), (''keywords'', Seq []),
       (''publication_types'', Seq []), (''mesh_terms'', Seq [])]) = Inr s)"
proof -
  define a where "a = Dict [(''pmid'', Str ''7''), (''title'', Str ''A title''),
       (''authors'', Str ''Smith John''),
       (''journal'', Str ''A journal''), (''journal_iso'', Str []), (''pub_date'', Str ''2020 Jan''),
       (''abstract'', Str []), (''doi'', Str []), (''keywords'', Seq []),
       (''publication_types'', Seq []), (''mesh_terms'', Seq [])]"
  have p: "publication a"
    by (simp add: a_def publication_def string_list_def get_or_def)
  have o: "optional_empty a"
    by (simp add: a_def optional_empty_def field_def get_or_def)
  have m: "mandatory_items plain a
     = [''# '' @ page_sign @ '' Publication Details - PMID 7'' @ nl,
            ''## A title'' @ nl,
            ''**Authors:** Smith John'' @ nl,
            ''**Journal:** A journal'',
            ''**Published:** 2020 Jan'',
            ''**PMID:** 7'',
            nl @ ''## '' @ link_sign @ '' Quick Access Links'',
            bullet @ '' ['' @ page_sign
              @ '' **View on PubMed**](https://pubmed.ncbi.nlm.nih.gov/7/) - Official PubMed page'',
            bullet @ '' ['' @ magnifier_sign
              @ '' **Search Full Text**](https://pubmed.ncbi.nlm.nih.gov/7/) - Look for free full text'',
            bullet @ '' ['' @ chart_sign
              @ '' **Citation Analysis**](https://scholar.google.com/scholar?q=7) - Google Scholar citations'',
            bullet @ '' ['' @ link_sign
              @ '' **Find Similar**](https://pubmed.ncbi.nlm.nih.gov/sites/pubmed/?linkname=pubmed_pubmed&from_uid=7) - Related articles'']"
    by (simp add: a_def mandatory_items_def get_or_def)
  have d: "details plain a = Inr (mandatory_items plain a)"
    using o details_omit_empty_sections [of a plain] by blast
  have s: "\<exists>s. format_article_details plain a = Inr s"
    using p details_omit_empty_sections [of a plain] by blast
  show ?thesis
    using p o d s unfolding m unfolding a_def by (intro conjI)
qed

end
